theory Spec2Isabelle
  imports Main "HOL-Library.Word"
begin

unbundle bit_operations_syntax

section \<open>Host machine: the x86 fragment the macro-VU recompiler emits\<close>

text \<open>
  \<^verbatim>\<open>microVU_Macro.inl\<close> is a recompiler: its functions emit host (x86) instructions
  into a code buffer while a guest block is translated, and the emitted code runs later.
  The model keeps the two levels apart: the emit functions build an \<open>instr list\<close>, and
  \<open>exec\<close> runs such a list on a host state.
\<close>

type_synonym u32 = "32 word"

text \<open>A 128-bit value as its four 32-bit lanes \<open>UL[0]\<close> .. \<open>UL[3]\<close>.\<close>

type_synonym u128 = "u32 \<times> u32 \<times> u32 \<times> u32"

fun lane :: "nat \<Rightarrow> u128 \<Rightarrow> u32" where
  "lane k (a, b, c, d) = (if k = 0 then a else if k = 1 then b else if k = 2 then c else d)"

fun set_lane :: "nat \<Rightarrow> u32 \<Rightarrow> u128 \<Rightarrow> u128" where
  "set_lane k v (a, b, c, d) =
     (if k = 0 then (v, b, c, d) else if k = 1 then (a, v, c, d)
      else if k = 2 then (a, b, v, d) else (a, b, c, v))"

definition rep4 :: "u32 \<Rightarrow> u128" where
  "rep4 v = (v, v, v, v)"

text \<open>The forward-jump labels the source declares (\<open>xForwardJZ32 skipvuidle\<close>, \<open>xForwardJL32 skip\<close>,
  \<open>xForwardJZ8 skip\<close>); the 8- and 32-bit displacement forms of a jump behave alike.\<close>

datatype label = skipvuidle | skip

datatype reg32 = EAX | ECX | EDX | GPRF0

datatype xmm = XmmT1 | XmmPQ

text \<open>
  Memory operands. \<open>vu0Regs\<close>, \<open>VU0\<close> and \<open>microVU0.regs()\<close> all name \<open>vuRegs[0]\<close>, so
  \<open>VU0.VI[i]\<close> and \<open>vu0Regs.VI[i]\<close> are the same cell \<open>M_VI i\<close>.
\<close>

datatype mem32 =
    M_cpuRegs_cycle
  | M_GPR_UL nat nat
  | M_VI nat
  | M_vu0_cycle
  | M_vu0_nextBlockCycles

datatype mem128 = M_GPR nat | M_VF nat | M_micro_statusflags | M_micro_macflags

text \<open>Functions of the emulator that emitted code calls at run time (\<open>xFastCall\<close>).\<close>

datatype extfn =
    ExecuteBlockJIT | vu0WaitMicro | vu0FinishMicro
  | vu1Finish | vu1ExecMicro | vu0ResetRegs | vu1ResetRegs

text \<open>
  Host code emitted by collaborators whose sources are elsewhere (the EE register cache,
  the microVU register allocator, the generic branch emitter, the interpreter bridge).
  The recompiler only asks for it; what it does at run time is a parameter of \<open>exec\<close>.
\<close>

datatype jmpType = JNZ32 | JZ32

datatype hostc =
    IFlushCall_FLUSH_EVERYTHING
  | RegAlloc_flushAll
  | EeOnWriteReg nat nat
  | EeFlushAllUnused
  | EeMoveGPRtoM nat nat
  | RecDoBranchImm jmpType bool
  | RecCall string
  | FreeX86regs
  | MVUcode string nat

text \<open>
  Two-operand integer instructions \<open>xMOV(dst, src)\<close>, \<open>xADD\<close>, ... are one constructor
  \<open>Op op dst src\<close>; an operand is a register, a 32-bit memory cell or an immediate.
\<close>

datatype operand = R reg32 | M mem32 | I u32

datatype binop = xMOV | xADD | xSUB | xCMP | xAND | xOR | xXOR | xTEST

datatype jcc = JZ | JL

datatype instr =
    Op binop operand operand
  | XCDQ
  | XMOVSSZX xmm mem32
  | XMOVSS mem32 xmm
  | XMOVDZX xmm operand
  | XSHUF_PS xmm xmm nat
  | XMOVAPS_mx mem128 xmm
  | XMOVAPS_xm xmm mem128
  | XLoadFarAddr_arg1reg_CpuVU0
  | XFastCall extfn
  | XForwardJ jcc label
  | SetTarget label
  | MVUallocSFLAGd mem32
  | MVUallocSFLAGc reg32 reg32 nat
  | Host hostc

record hstate =
  eax :: u32
  ecx :: u32
  edx :: u32
  gprF0 :: u32
  zf :: bool
  lt :: bool
  xmmT1 :: u128
  xmmPQ :: u128
  cpuRegs_cycle :: u32
  GPR :: "nat \<Rightarrow> u128"
  VI :: "nat \<Rightarrow> u32"
  VF :: "nat \<Rightarrow> u128"
  vu0_cycle :: u32
  vu0_nextBlockCycles :: u32
  micro_statusflags :: u128
  micro_macflags :: u128

text \<open>
  The flags the emitted jumps read: \<open>zf\<close> is ZF, \<open>lt\<close> is \<open>SF \<noteq> OF\<close>, the condition of
  \<open>JL\<close>. After a logical operation OF is clear, so \<open>lt\<close> is the sign of the result; after
  an addition or a subtraction \<open>SF \<noteq> OF\<close> is the sign of the exact (unwrapped) result.
\<close>

fun get_reg :: "hstate \<Rightarrow> reg32 \<Rightarrow> u32" where
  "get_reg s EAX = eax s"
| "get_reg s ECX = ecx s"
| "get_reg s EDX = edx s"
| "get_reg s GPRF0 = gprF0 s"

fun set_reg :: "reg32 \<Rightarrow> u32 \<Rightarrow> hstate \<Rightarrow> hstate" where
  "set_reg EAX v s = s\<lparr>eax := v\<rparr>"
| "set_reg ECX v s = s\<lparr>ecx := v\<rparr>"
| "set_reg EDX v s = s\<lparr>edx := v\<rparr>"
| "set_reg GPRF0 v s = s\<lparr>gprF0 := v\<rparr>"

fun get_xmm :: "hstate \<Rightarrow> xmm \<Rightarrow> u128" where
  "get_xmm s XmmT1 = xmmT1 s"
| "get_xmm s XmmPQ = xmmPQ s"

fun set_xmm :: "xmm \<Rightarrow> u128 \<Rightarrow> hstate \<Rightarrow> hstate" where
  "set_xmm XmmT1 v s = s\<lparr>xmmT1 := v\<rparr>"
| "set_xmm XmmPQ v s = s\<lparr>xmmPQ := v\<rparr>"

fun rd32 :: "hstate \<Rightarrow> mem32 \<Rightarrow> u32" where
  "rd32 s M_cpuRegs_cycle = cpuRegs_cycle s"
| "rd32 s (M_GPR_UL i k) = lane k (GPR s i)"
| "rd32 s (M_VI i) = VI s i"
| "rd32 s M_vu0_cycle = vu0_cycle s"
| "rd32 s M_vu0_nextBlockCycles = vu0_nextBlockCycles s"

fun wr32 :: "mem32 \<Rightarrow> u32 \<Rightarrow> hstate \<Rightarrow> hstate" where
  "wr32 M_cpuRegs_cycle v s = s\<lparr>cpuRegs_cycle := v\<rparr>"
| "wr32 (M_GPR_UL i k) v s = s\<lparr>GPR := (GPR s)(i := set_lane k v (GPR s i))\<rparr>"
| "wr32 (M_VI i) v s = s\<lparr>VI := (VI s)(i := v)\<rparr>"
| "wr32 M_vu0_cycle v s = s\<lparr>vu0_cycle := v\<rparr>"
| "wr32 M_vu0_nextBlockCycles v s = s\<lparr>vu0_nextBlockCycles := v\<rparr>"

fun rd128 :: "hstate \<Rightarrow> mem128 \<Rightarrow> u128" where
  "rd128 s (M_GPR i) = GPR s i"
| "rd128 s (M_VF i) = VF s i"
| "rd128 s M_micro_statusflags = micro_statusflags s"
| "rd128 s M_micro_macflags = micro_macflags s"

fun wr128 :: "mem128 \<Rightarrow> u128 \<Rightarrow> hstate \<Rightarrow> hstate" where
  "wr128 (M_GPR i) v s = s\<lparr>GPR := (GPR s)(i := v)\<rparr>"
| "wr128 (M_VF i) v s = s\<lparr>VF := (VF s)(i := v)\<rparr>"
| "wr128 M_micro_statusflags v s = s\<lparr>micro_statusflags := v\<rparr>"
| "wr128 M_micro_macflags v s = s\<lparr>micro_macflags := v\<rparr>"

fun rd_op :: "hstate \<Rightarrow> operand \<Rightarrow> u32" where
  "rd_op s (R r) = get_reg s r"
| "rd_op s (M m) = rd32 s m"
| "rd_op s (I v) = v"

fun wr_op :: "operand \<Rightarrow> u32 \<Rightarrow> hstate \<Rightarrow> hstate" where
  "wr_op (R r) v s = set_reg r v s"
| "wr_op (M m) v s = wr32 m v s"
| "wr_op (I w) v s = s"

definition flags_logic :: "u32 \<Rightarrow> hstate \<Rightarrow> hstate" where
  "flags_logic r s = s\<lparr>zf := (r = 0), lt := (sint r < 0)\<rparr>"

definition flags_add :: "u32 \<Rightarrow> u32 \<Rightarrow> hstate \<Rightarrow> hstate" where
  "flags_add a b s = s\<lparr>zf := (a + b = 0), lt := (sint a + sint b < 0)\<rparr>"

definition flags_sub :: "u32 \<Rightarrow> u32 \<Rightarrow> hstate \<Rightarrow> hstate" where
  "flags_sub a b s = s\<lparr>zf := (a - b = 0), lt := (sint a < sint b)\<rparr>"

fun binop_sem :: "binop \<Rightarrow> operand \<Rightarrow> u32 \<Rightarrow> u32 \<Rightarrow> hstate \<Rightarrow> hstate" where
  "binop_sem xMOV d a b s = wr_op d b s"
| "binop_sem xADD d a b s = flags_add a b (wr_op d (a + b) s)"
| "binop_sem xSUB d a b s = flags_sub a b (wr_op d (a - b) s)"
| "binop_sem xCMP d a b s = flags_sub a b s"
| "binop_sem xAND d a b s = flags_logic (a AND b) (wr_op d (a AND b) s)"
| "binop_sem xOR d a b s = flags_logic (a OR b) (wr_op d (a OR b) s)"
| "binop_sem xXOR d a b s = flags_logic (a XOR b) (wr_op d (a XOR b) s)"
| "binop_sem xTEST d a b s = flags_logic (a AND b) s"

text \<open>
  The collaborators of the emitted code, as parameters: what the opaque host code and the
  called emulator functions do to the host state, and the two status-flag conversions of
  \<^verbatim>\<open>microVU_Alloc.inl\<close> (\<open>mVUallocSFLAGd\<close> loads the scalar status word and leaves its
  denormalized form in \<open>eax\<close>; \<open>mVUallocSFLAGc\<close> normalizes a flag register).
\<close>

record env =
  host_sem :: "hostc \<Rightarrow> hstate \<Rightarrow> hstate"
  ext_sem :: "extfn \<Rightarrow> hstate \<Rightarrow> hstate"
  denorm :: "u32 \<Rightarrow> u32"
  norm :: "u32 \<Rightarrow> u32"

text \<open>
  One straight-line instruction. Jumps, targets and calls are handled by \<open>exec\<close>.
  \<open>xLoadFarAddr(arg1reg, CpuVU0)\<close> loads the argument register of the call that follows;
  which host register that is depends on the calling convention, and nothing this file
  emits reads it back, so the instruction changes none of the registers modelled. The same
  holds for the scratch registers of \<open>mVUallocSFLAGd\<close> and \<open>mVUallocSFLAGc\<close>: the code
  emitted after them reads only their result.
\<close>

fun step :: "env \<Rightarrow> instr \<Rightarrow> hstate \<Rightarrow> hstate" where
  "step E (Op op d x) s = binop_sem op d (rd_op s d) (rd_op s x) s"
| "step E XCDQ s = s\<lparr>edx := (if sint (eax s) < 0 then - 1 else 0)\<rparr>"
| "step E (XMOVSSZX x m) s = set_xmm x (rd32 s m, 0, 0, 0) s"
| "step E (XMOVSS m x) s = wr32 m (lane 0 (get_xmm s x)) s"
| "step E (XMOVDZX x a) s = set_xmm x (rd_op s a, 0, 0, 0) s"
| "step E (XSHUF_PS d x imm) s =
     set_xmm d (lane (imm mod 4) (get_xmm s d), lane (imm div 4 mod 4) (get_xmm s d),
                lane (imm div 16 mod 4) (get_xmm s x), lane (imm div 64 mod 4) (get_xmm s x)) s"
| "step E (XMOVAPS_mx m x) s = wr128 m (get_xmm s x) s"
| "step E (XMOVAPS_xm x m) s = set_xmm x (rd128 s m) s"
| "step E XLoadFarAddr_arg1reg_CpuVU0 s = s"
| "step E (XFastCall f) s = ext_sem E f s"
| "step E (XForwardJ cc l) s = s"
| "step E (SetTarget l) s = s"
| "step E (MVUallocSFLAGd m) s = s\<lparr>eax := denorm E (rd32 s m)\<rparr>"
| "step E (MVUallocSFLAGc r rT fInstance) s = set_reg r (norm E (get_reg s rT)) s"
| "step E (Host h) s = host_sem E h s"

text \<open>
  Running emitted code. A configuration is the host state and the list of emulator
  functions called so far. Every jump the source emits is a forward jump to a label bound
  later by \<open>SetTarget\<close>; \<open>Some l\<close> means a taken jump is skipping to the binding of \<open>l\<close>.
\<close>

type_synonym cfg = "hstate \<times> extfn list"

fun taken :: "jcc \<Rightarrow> hstate \<Rightarrow> bool" where
  "taken JZ s = zf s"
| "taken JL s = lt s"

fun exec :: "env \<Rightarrow> label option \<Rightarrow> instr list \<Rightarrow> cfg \<Rightarrow> label option \<times> cfg" where
  "exec E m [] c = (m, c)"
| "exec E (Some l) (i # is) c =
     (if i = SetTarget l then exec E None is c else exec E (Some l) is c)"
| "exec E None (XForwardJ cc l # is) (s, cs) =
     exec E (if taken cc s then Some l else None) is (s, cs)"
| "exec E None (XFastCall f # is) (s, cs) = exec E None is (ext_sem E f s, cs @ [f])"
| "exec E None (i # is) (s, cs) = exec E None is (step E i s, cs)"

section \<open>Recompile-time state and the emit functions\<close>

text \<open>
  The guest control-register numbers \<open>REG_*\<close> are \<open>#define\<close>s of \<^verbatim>\<open>VU.h\<close>, which is not
  among the sources; they are the numbers the guest architecture gives the VU0 control
  registers.
\<close>

definition REG_STATUS_FLAG :: nat where "REG_STATUS_FLAG = 16"
definition REG_MAC_FLAG :: nat where "REG_MAC_FLAG = 17"
definition REG_R :: nat where "REG_R = 20"
definition REG_Q :: nat where "REG_Q = 22"
definition REG_TPC :: nat where "REG_TPC = 26"
definition REG_FBRST :: nat where "REG_FBRST = 28"
definition REG_VPU_STAT :: nat where "REG_VPU_STAT = 29"
definition REG_CMSAR1 :: nat where "REG_CMSAR1 = 31"

text \<open>The fields of \<open>microVU0.prog.IRinfo.info[0]\<close> that this file touches.\<close>

record irinfo =
  cFlag_write :: nat
  cFlag_lastWrite :: nat
  sFlag_doFlag :: bool
  sFlag_doNonSticky :: bool
  sFlag_write :: nat
  sFlag_lastWrite :: nat
  mFlag_doFlag :: bool
  mFlag_write :: nat
  lOp_isNOP :: bool

definition info_zero :: irinfo where
  "info_zero = \<lparr>cFlag_write = 0, cFlag_lastWrite = 0, sFlag_doFlag = False,
     sFlag_doNonSticky = False, sFlag_write = 0, sFlag_lastWrite = 0, mFlag_doFlag = False,
     mFlag_write = 0, lOp_isNOP = False\<rparr>"

text \<open>
  What the recompiler works on while it translates one guest instruction:
  \<open>cpuRegs.code\<close>, the value \<open>scaleblockcycles_clear()\<close> returns for the block so far (the
  dynarec's elapsed-cycle estimate; each handler asks for it at most once), the fields of
  \<open>microVU0\<close>, the host code buffer \<open>out\<close>, and a log of the \<open>mVU_f(microVU0, pass)\<close>
  invocations.
\<close>

record rst =
  cpuRegs_code :: u32
  blockcycles :: u32
  mVU_cop2 :: nat
  mVU_curPC :: nat
  mVU_code :: u32
  info0 :: irinfo
  out :: "instr list"
  invoked :: "(string \<times> nat) list"

text \<open>
  Modelled from the spec: the field macros \<open>_Rs_\<close>, \<open>_Rt_\<close>, \<open>_Rd_\<close> and \<open>_Funct_\<close> come from
  a header that is not among the sources. The spec has the dispatcher extract fixed
  bit-fields whose width is the size of the table they index (5 bits for 32 entries,
  6 bits for 64); they sit at the guest encoding's register and function positions.
\<close>

definition Rs :: "rst \<Rightarrow> nat" where
  "Rs r = unat (drop_bit 21 (cpuRegs_code r) AND 0x1F)"

definition Rt :: "rst \<Rightarrow> nat" where
  "Rt r = unat (drop_bit 16 (cpuRegs_code r) AND 0x1F)"

definition Rd :: "rst \<Rightarrow> nat" where
  "Rd r = unat (drop_bit 11 (cpuRegs_code r) AND 0x1F)"

definition Funct :: "rst \<Rightarrow> nat" where
  "Funct r = unat (cpuRegs_code r AND 0x3F)"

definition emit :: "instr \<Rightarrow> rst \<Rightarrow> rst" where
  "emit i r = r\<lparr>out := out r @ [i]\<rparr>"

definition emits :: "instr list \<Rightarrow> rst \<Rightarrow> rst" where
  "emits is r = r\<lparr>out := out r @ is\<rparr>"

text \<open>Statements in sequence, and a statement under \<open>if (b)\<close>.\<close>

definition seq :: "('s \<Rightarrow> 's) list \<Rightarrow> 's \<Rightarrow> 's" where
  "seq fs r = fold (\<lambda>f x. f x) fs r"

definition guarded :: "bool \<Rightarrow> ('s \<Rightarrow> 's) \<Rightarrow> 's \<Rightarrow> 's" where
  "guarded b f r = (if b then f r else r)"

text \<open>The code a function appends to the buffer.\<close>

definition emitted :: "(rst \<Rightarrow> rst) \<Rightarrow> rst \<Rightarrow> instr list" where
  "emitted f r = drop (length (out r)) (out (f r))"

subsection \<open>Macro VU - Helper Macros / Functions\<close>

text \<open>
  \<open>regAlloc->reset()\<close> only resets the allocator's translation-time bookkeeping, which is
  not part of \<open>rst\<close>.
\<close>

definition setupMacroOp :: "u32 \<Rightarrow> rst \<Rightarrow> rst" where
  "setupMacroOp mode = seq
     [\<lambda>r. r\<lparr>mVU_cop2 := 1\<rparr>,
      \<lambda>r. r\<lparr>mVU_curPC := 0\<rparr>,
      \<lambda>r. r\<lparr>mVU_code := cpuRegs_code r\<rparr>,
      \<lambda>r. r\<lparr>info0 := info_zero\<rparr>,
      emit (Host IFlushCall_FLUSH_EVERYTHING),
      guarded (mode AND 0x01 \<noteq> 0) (emit (XMOVSSZX XmmPQ (M_VI REG_Q))),
      guarded (mode AND 0x08 \<noteq> 0)
        (\<lambda>r. r\<lparr>info0 := (info0 r)\<lparr>cFlag_write := 0xff, cFlag_lastWrite := 0xff\<rparr>\<rparr>),
      guarded (mode AND 0x10 \<noteq> 0) (seq
        [\<lambda>r. r\<lparr>info0 := (info0 r)\<lparr>sFlag_doFlag := True, sFlag_doNonSticky := True,
                                  sFlag_write := 0, sFlag_lastWrite := 0,
                                  mFlag_doFlag := True, mFlag_write := 0xff\<rparr>\<rparr>,
         emit (MVUallocSFLAGd (M_VI REG_STATUS_FLAG)),
         emit (Op xMOV (R GPRF0) (R EAX))])]"

definition endMacroOp :: "u32 \<Rightarrow> rst \<Rightarrow> rst" where
  "endMacroOp mode = seq
     [guarded (mode AND 0x02 \<noteq> 0) (emit (XMOVSS (M_VI REG_Q) XmmPQ)),
      guarded (mode AND 0x10 \<noteq> 0) (seq
        [emit (MVUallocSFLAGc EAX GPRF0 0),
         emit (Op xMOV (M (M_VI REG_STATUS_FLAG)) (R EAX))]),
      emit (Host RegAlloc_flushAll),
      guarded (mode AND 0x10 \<noteq> 0) (seq
        [emit (MVUallocSFLAGd (M_VI REG_STATUS_FLAG)),
         emit (XMOVDZX XmmT1 (R EAX)),
         emit (XSHUF_PS XmmT1 XmmT1 0),
         emit (XMOVAPS_mx M_micro_statusflags XmmT1),
         emit (XMOVDZX XmmT1 (M (M_VI REG_MAC_FLAG))),
         emit (XSHUF_PS XmmT1 XmmT1 0),
         emit (XMOVAPS_mx M_micro_macflags XmmT1)]),
      \<lambda>r. r\<lparr>mVU_cop2 := 0\<rparr>]"

text \<open>
  The microVU translators \<open>mVU_f(mVU, recPass)\<close> live in other files. A translator is a
  parameter: given the opcode name, the pass and the recompiler state it returns the new
  \<open>info[0]\<close> and the host code it emits.
\<close>

type_synonym mvufn = "string \<Rightarrow> nat \<Rightarrow> rst \<Rightarrow> irinfo \<times> instr list"

definition call_mVU :: "mvufn \<Rightarrow> string \<Rightarrow> nat \<Rightarrow> rst \<Rightarrow> rst" where
  "call_mVU mVU f pass r =
     (case mVU f pass r of
        (nfo, is) \<Rightarrow> r\<lparr>info0 := nfo, out := out r @ is, invoked := invoked r @ [(f, pass)]\<rparr>)"

definition REC_COP2_mVU0 :: "mvufn \<Rightarrow> string \<Rightarrow> u32 \<Rightarrow> rst \<Rightarrow> rst" where
  "REC_COP2_mVU0 mVU f mode = seq
     [setupMacroOp mode,
      (\<lambda>r. if mode AND 4 \<noteq> 0
            then seq [call_mVU mVU f 0,
                      \<lambda>r. guarded (\<not> lOp_isNOP (info0 r)) (call_mVU mVU f 1) r] r
            else call_mVU mVU f 1 r),
      endMacroOp mode]"

definition INTERPRETATE_COP2_FUNC :: "string \<Rightarrow> rst \<Rightarrow> rst" where
  "INTERPRETATE_COP2_FUNC f = seq [emit (Host (RecCall (''V'' @ f))), emit (Host FreeX86regs)]"

text \<open>The instances of \<open>REC_COP2_mVU0(f, opName, mode)\<close>, in the order of the source.\<close>

definition rec_cop2_mvu0 :: "(string \<times> u32) list" where
  "rec_cop2_mvu0 =
   [(''ABS'', 0x00), (''ITOF0'', 0x00), (''ITOF4'', 0x00), (''ITOF12'', 0x00),
    (''ITOF15'', 0x00), (''FTOI0'', 0x00), (''FTOI4'', 0x00), (''FTOI12'', 0x00),
    (''FTOI15'', 0x00),
    (''ADD'', 0x10), (''ADDi'', 0x10), (''ADDq'', 0x11), (''ADDx'', 0x10), (''ADDy'', 0x10),
    (''ADDz'', 0x10), (''ADDw'', 0x10),
    (''ADDA'', 0x10), (''ADDAi'', 0x10), (''ADDAq'', 0x11), (''ADDAx'', 0x10),
    (''ADDAy'', 0x10), (''ADDAz'', 0x10), (''ADDAw'', 0x10),
    (''SUB'', 0x10), (''SUBi'', 0x10), (''SUBq'', 0x11), (''SUBx'', 0x10), (''SUBy'', 0x10),
    (''SUBz'', 0x10), (''SUBw'', 0x10),
    (''SUBA'', 0x10), (''SUBAi'', 0x10), (''SUBAq'', 0x11), (''SUBAx'', 0x10),
    (''SUBAy'', 0x10), (''SUBAz'', 0x10), (''SUBAw'', 0x10),
    (''MUL'', 0x10), (''MULi'', 0x10), (''MULq'', 0x11), (''MULx'', 0x10), (''MULy'', 0x10),
    (''MULz'', 0x10), (''MULw'', 0x10),
    (''MULA'', 0x10), (''MULAi'', 0x10), (''MULAq'', 0x11), (''MULAx'', 0x10),
    (''MULAy'', 0x10), (''MULAz'', 0x10), (''MULAw'', 0x10),
    (''MAX'', 0x00), (''MAXi'', 0x00), (''MAXx'', 0x00), (''MAXy'', 0x00), (''MAXz'', 0x00),
    (''MAXw'', 0x00),
    (''MINI'', 0x00), (''MINIi'', 0x00), (''MINIx'', 0x00), (''MINIy'', 0x00),
    (''MINIz'', 0x00), (''MINIw'', 0x00),
    (''MADD'', 0x10), (''MADDi'', 0x10), (''MADDq'', 0x11), (''MADDx'', 0x10),
    (''MADDy'', 0x10), (''MADDz'', 0x10), (''MADDw'', 0x10),
    (''MADDA'', 0x10), (''MADDAi'', 0x10), (''MADDAq'', 0x11), (''MADDAx'', 0x10),
    (''MADDAy'', 0x10), (''MADDAz'', 0x10), (''MADDAw'', 0x10),
    (''MSUB'', 0x10), (''MSUBi'', 0x10), (''MSUBq'', 0x11), (''MSUBx'', 0x10),
    (''MSUBy'', 0x10), (''MSUBz'', 0x10), (''MSUBw'', 0x10),
    (''MSUBA'', 0x10), (''MSUBAi'', 0x10), (''MSUBAq'', 0x11), (''MSUBAx'', 0x10),
    (''MSUBAy'', 0x10), (''MSUBAz'', 0x10), (''MSUBAw'', 0x10),
    (''OPMULA'', 0x10), (''OPMSUB'', 0x10), (''CLIP'', 0x08),
    (''DIV'', 0x12), (''SQRT'', 0x12), (''RSQRT'', 0x12),
    (''IADD'', 0x04), (''IADDI'', 0x04), (''IAND'', 0x04), (''IOR'', 0x04), (''ISUB'', 0x04),
    (''ILWR'', 0x04), (''ISWR'', 0x00), (''LQI'', 0x04), (''LQD'', 0x04), (''SQI'', 0x00),
    (''SQD'', 0x00), (''MFIR'', 0x04), (''MTIR'', 0x04), (''MOVE'', 0x00), (''MR32'', 0x00),
    (''RINIT'', 0x00), (''RGET'', 0x04), (''RNEXT'', 0x04), (''RXOR'', 0x00)]"

subsection \<open>Macro VU - Branches\<close>

definition setupBranchTest :: "jmpType \<Rightarrow> bool \<Rightarrow> rst \<Rightarrow> rst" where
  "setupBranchTest jmp isLikely = seq
     [emit (Host EeFlushAllUnused),
      emit (Op xTEST (M (M_VI REG_VPU_STAT)) (I 0x100)),
      emit (Host (RecDoBranchImm jmp isLikely))]"

definition recBC2F :: "rst \<Rightarrow> rst" where "recBC2F = setupBranchTest JNZ32 False"
definition recBC2T :: "rst \<Rightarrow> rst" where "recBC2T = setupBranchTest JZ32 False"
definition recBC2FL :: "rst \<Rightarrow> rst" where "recBC2FL = setupBranchTest JNZ32 True"
definition recBC2TL :: "rst \<Rightarrow> rst" where "recBC2TL = setupBranchTest JZ32 True"

subsection \<open>Macro VU - COP2 Transfer Instructions\<close>

definition COP2_Interlock :: "bool \<Rightarrow> rst \<Rightarrow> rst" where
  "COP2_Interlock mBitSync r = seq
     [emit (Host IFlushCall_FLUSH_EVERYTHING),
      emit (Op xTEST (M (M_VI REG_VPU_STAT)) (I 0x1)),
      emit (XForwardJ JZ skipvuidle),
      emit (Op xMOV (R EAX) (M M_cpuRegs_cycle)),
      emit (Op xADD (R EAX) (I (blockcycles r))),
      emit (Op xMOV (M M_cpuRegs_cycle) (R EAX)),
      emit XLoadFarAddr_arg1reg_CpuVU0,
      emit (XFastCall ExecuteBlockJIT),
      (if mBitSync then emit (XFastCall vu0WaitMicro) else emit (XFastCall vu0FinishMicro)),
      emit (SetTarget skipvuidle)] r"

definition TEST_FBRST_RESET :: "extfn \<Rightarrow> nat \<Rightarrow> rst \<Rightarrow> rst" where
  "TEST_FBRST_RESET resetFunct vuIndex r = seq
     [emit (Op xTEST (R EAX) (I (if vuIndex \<noteq> 0 then 0x200 else 0x002))),
      emit (XForwardJ JZ skip),
      emit (XFastCall resetFunct),
      emit (Op xMOV (R EAX) (M (M_GPR_UL (Rt r) 0))),
      emit (SetTarget skip)] r"

definition recCFC2 :: "rst \<Rightarrow> rst" where
  "recCFC2 r0 =
     (let r = guarded (cpuRegs_code r0 AND 1 \<noteq> 0) (COP2_Interlock False) r0 in
      if Rt r = 0 then r
      else seq
        [emit (Host IFlushCall_FLUSH_EVERYTHING),
         guarded (\<not> (cpuRegs_code r AND 1 \<noteq> 0)) (seq
           [emit (Op xTEST (M (M_VI REG_VPU_STAT)) (I 0x1)),
            emit (XForwardJ JZ skipvuidle),
            emit (Op xMOV (R EAX) (M M_cpuRegs_cycle)),
            emit (Op xADD (R EAX) (I (blockcycles r))),
            emit (Op xMOV (M M_cpuRegs_cycle) (R EAX)),
            emit (Op xSUB (R EAX) (M M_vu0_cycle)),
            emit (Op xSUB (R EAX) (M M_vu0_nextBlockCycles)),
            emit (Op xCMP (R EAX) (I 8)),
            emit (XForwardJ JL skip),
            emit XLoadFarAddr_arg1reg_CpuVU0,
            emit (XFastCall ExecuteBlockJIT),
            emit (SetTarget skip),
            emit (SetTarget skipvuidle)]),
         (if Rd r = REG_STATUS_FLAG
          then emit (Op xMOV (R EAX) (M (M_VI REG_STATUS_FLAG)))
          else emit (Op xMOV (R EAX) (M (M_VI (Rd r))))),
         emit (Op xMOV (M (M_GPR_UL (Rt r) 0)) (R EAX)),
         (if Rd r \<ge> 16
          then seq [emit XCDQ, emit (Op xMOV (M (M_GPR_UL (Rt r) 1)) (R EDX))]
          else emit (Op xMOV (M (M_GPR_UL (Rt r) 1)) (I 0))),
         emit (Host (EeOnWriteReg (Rt r) 1))] r)"

text \<open>The \<open>switch (_Rd_)\<close> of \<open>recCTC2\<close>; the cases are tried in the order of the source.\<close>

definition recCTC2_switch :: "rst \<Rightarrow> rst" where
  "recCTC2_switch r =
     (if Rd r = REG_MAC_FLAG \<or> Rd r = REG_TPC \<or> Rd r = REG_VPU_STAT then r
      else if Rd r = REG_R then seq
        [emit (Op xMOV (R EAX) (M (M_GPR_UL (Rt r) 0))),
         emit (Op xAND (R EAX) (I 0x7FFFFF)),
         emit (Op xOR (R EAX) (I 0x3f800000)),
         emit (Op xMOV (M (M_VI REG_R)) (R EAX))] r
      else if Rd r = REG_STATUS_FLAG then seq
        [(if Rt r \<noteq> 0 then seq
            [emit (Op xMOV (R EAX) (M (M_GPR_UL (Rt r) 0))),
             emit (Op xAND (R EAX) (I 0xFC0)),
             emit (Op xAND (M (M_VI REG_STATUS_FLAG)) (I 0x3F)),
             emit (Op xOR (M (M_VI REG_STATUS_FLAG)) (R EAX))]
          else emit (Op xAND (M (M_VI REG_STATUS_FLAG)) (I 0x3F))),
         emit (MVUallocSFLAGd (M_VI REG_STATUS_FLAG)),
         emit (XMOVDZX XmmT1 (R EAX)),
         emit (XSHUF_PS XmmT1 XmmT1 0),
         emit (XMOVAPS_mx M_micro_statusflags XmmT1)] r
      else if Rd r = REG_CMSAR1 then seq
        [emit (Op xMOV (R ECX) (I 1)),
         emit (XFastCall vu1Finish),
         (if Rt r \<noteq> 0 then emit (Op xMOV (R ECX) (M (M_GPR_UL (Rt r) 0)))
          else emit (Op xXOR (R ECX) (R ECX))),
         emit (XFastCall vu1ExecMicro)] r
      else if Rd r = REG_FBRST then
        (if Rt r = 0 then emit (Op xMOV (M (M_VI REG_FBRST)) (I 0)) r
         else seq
           [emit (Op xMOV (R EAX) (M (M_GPR_UL (Rt r) 0))),
            TEST_FBRST_RESET vu0ResetRegs 0,
            TEST_FBRST_RESET vu1ResetRegs 1,
            emit (Op xAND (R EAX) (I 0x0C0C)),
            emit (Op xMOV (M (M_VI REG_FBRST)) (R EAX))] r)
      else guarded (Rd r \<noteq> 0) (emit (Host (EeMoveGPRtoM (Rd r) (Rt r)))) r)"

definition recCTC2 :: "rst \<Rightarrow> rst" where
  "recCTC2 r0 =
     (let r = guarded (cpuRegs_code r0 AND 1 \<noteq> 0) (COP2_Interlock True) r0 in
      if Rd r = 0 then r
      else seq
        [emit (Host IFlushCall_FLUSH_EVERYTHING),
         guarded (\<not> (cpuRegs_code r AND 1 \<noteq> 0)) (seq
           [emit (Op xTEST (M (M_VI REG_VPU_STAT)) (I 0x1)),
            emit (XForwardJ JZ skipvuidle),
            emit (Op xMOV (R EAX) (M M_cpuRegs_cycle)),
            emit (Op xADD (R EAX) (I (blockcycles r))),
            emit (Op xMOV (M M_cpuRegs_cycle) (R EAX)),
            emit (Op xSUB (R EAX) (M M_vu0_cycle)),
            emit (Op xSUB (R EAX) (M M_vu0_nextBlockCycles)),
            emit (Op xCMP (R EAX) (I 8)),
            emit (XForwardJ JL skip),
            emit XLoadFarAddr_arg1reg_CpuVU0,
            emit (XFastCall ExecuteBlockJIT),
            emit (SetTarget skip),
            emit (SetTarget skipvuidle)]),
         recCTC2_switch] r)"

definition recQMFC2 :: "rst \<Rightarrow> rst" where
  "recQMFC2 r0 =
     (let r = guarded (cpuRegs_code r0 AND 1 \<noteq> 0) (COP2_Interlock False) r0 in
      if Rt r = 0 then r
      else seq
        [emit (Host IFlushCall_FLUSH_EVERYTHING),
         guarded (\<not> (cpuRegs_code r AND 1 \<noteq> 0)) (seq
           [emit (Op xTEST (M (M_VI REG_VPU_STAT)) (I 0x1)),
            emit (XForwardJ JZ skipvuidle),
            emit (Op xMOV (R EAX) (M M_cpuRegs_cycle)),
            emit (Op xADD (R EAX) (I (blockcycles r))),
            emit (Op xMOV (M M_cpuRegs_cycle) (R EAX)),
            emit (Op xSUB (R EAX) (M M_vu0_cycle)),
            emit (Op xSUB (R EAX) (M M_vu0_nextBlockCycles)),
            emit (Op xCMP (R EAX) (I 8)),
            emit (XForwardJ JL skip),
            emit XLoadFarAddr_arg1reg_CpuVU0,
            emit (XFastCall ExecuteBlockJIT),
            emit (SetTarget skip),
            emit (SetTarget skipvuidle)]),
         emit (Host (EeOnWriteReg (Rt r) 0)),
         emit (XMOVAPS_xm XmmT1 (M_VF (Rd r))),
         emit (XMOVAPS_mx (M_GPR (Rt r)) XmmT1)] r)"

definition recQMTC2 :: "rst \<Rightarrow> rst" where
  "recQMTC2 r0 =
     (let r = guarded (cpuRegs_code r0 AND 1 \<noteq> 0) (COP2_Interlock True) r0 in
      if Rd r = 0 then r
      else seq
        [emit (Host IFlushCall_FLUSH_EVERYTHING),
         guarded (\<not> (cpuRegs_code r AND 1 \<noteq> 0)) (seq
           [emit (Op xTEST (M (M_VI REG_VPU_STAT)) (I 0x1)),
            emit (XForwardJ JZ skipvuidle),
            emit (Op xMOV (R EAX) (M M_cpuRegs_cycle)),
            emit (Op xADD (R EAX) (I (blockcycles r))),
            emit (Op xMOV (M M_cpuRegs_cycle) (R EAX)),
            emit (Op xSUB (R EAX) (M M_vu0_cycle)),
            emit (Op xCMP (R EAX) (I 8)),
            emit (XForwardJ JL skip),
            emit XLoadFarAddr_arg1reg_CpuVU0,
            emit (XFastCall ExecuteBlockJIT),
            emit (SetTarget skip),
            emit (SetTarget skipvuidle)]),
         emit (XMOVAPS_xm XmmT1 (M_GPR (Rt r))),
         emit (XMOVAPS_mx (M_VF (Rd r)) XmmT1)] r)"

subsection \<open>Macro VU - Tables\<close>

text \<open>
  A table entry is a function pointer. The constructors name the functions the tables
  point to; \<open>ptr_recV f\<close> is \<open>recV##f\<close>, the function \<open>REC_COP2_mVU0(f, ...)\<close> defines.
\<close>

datatype handler =
    ptr_rec_C2UNK | ptr_recQMFC2 | ptr_recCFC2 | ptr_recQMTC2 | ptr_recCTC2
  | ptr_recCOP2_BC2 | ptr_recCOP2_SPEC1 | ptr_recCOP2_SPEC2
  | ptr_recBC2F | ptr_recBC2T | ptr_recBC2FL | ptr_recBC2TL
  | ptr_recVNOP | ptr_recVWAITQ | ptr_recVCALLMS | ptr_recVCALLMSR
  | ptr_recV string

text \<open>
  An array \<open>void (*t[n])(void) = { ... }\<close>: the initializers in order, and null pointers in
  the slots the initializer list does not reach.
\<close>

definition mk_table :: "nat \<Rightarrow> handler list \<Rightarrow> handler option list" where
  "mk_table n hs = map Some (take n hs) @ replicate (n - length hs) None"

definition recCOP2t :: "handler option list" where
  "recCOP2t = mk_table 32
   [ptr_rec_C2UNK, ptr_recQMFC2, ptr_recCFC2, ptr_rec_C2UNK,
    ptr_rec_C2UNK, ptr_recQMTC2, ptr_recCTC2, ptr_rec_C2UNK,
    ptr_recCOP2_BC2, ptr_rec_C2UNK, ptr_rec_C2UNK, ptr_rec_C2UNK,
    ptr_rec_C2UNK, ptr_rec_C2UNK, ptr_rec_C2UNK, ptr_rec_C2UNK,
    ptr_recCOP2_SPEC1, ptr_recCOP2_SPEC1, ptr_recCOP2_SPEC1, ptr_recCOP2_SPEC1,
    ptr_recCOP2_SPEC1, ptr_recCOP2_SPEC1, ptr_recCOP2_SPEC1, ptr_recCOP2_SPEC1,
    ptr_recCOP2_SPEC1, ptr_recCOP2_SPEC1, ptr_recCOP2_SPEC1, ptr_recCOP2_SPEC1,
    ptr_recCOP2_SPEC1, ptr_recCOP2_SPEC1, ptr_recCOP2_SPEC1, ptr_recCOP2_SPEC1]"

definition recCOP2_BC2t :: "handler option list" where
  "recCOP2_BC2t = mk_table 32
   [ptr_recBC2F, ptr_recBC2T, ptr_recBC2FL, ptr_recBC2TL,
    ptr_rec_C2UNK, ptr_rec_C2UNK, ptr_rec_C2UNK, ptr_rec_C2UNK,
    ptr_rec_C2UNK, ptr_rec_C2UNK, ptr_rec_C2UNK, ptr_rec_C2UNK,
    ptr_rec_C2UNK, ptr_rec_C2UNK, ptr_rec_C2UNK, ptr_rec_C2UNK,
    ptr_rec_C2UNK, ptr_rec_C2UNK, ptr_rec_C2UNK, ptr_rec_C2UNK,
    ptr_rec_C2UNK, ptr_rec_C2UNK, ptr_rec_C2UNK, ptr_rec_C2UNK,
    ptr_rec_C2UNK, ptr_rec_C2UNK, ptr_rec_C2UNK, ptr_rec_C2UNK,
    ptr_rec_C2UNK, ptr_rec_C2UNK, ptr_rec_C2UNK, ptr_rec_C2UNK]"

definition recCOP2SPECIAL1t :: "handler option list" where
  "recCOP2SPECIAL1t = mk_table 64
   [ptr_recV ''ADDx'', ptr_recV ''ADDy'', ptr_recV ''ADDz'', ptr_recV ''ADDw'',
    ptr_recV ''SUBx'', ptr_recV ''SUBy'', ptr_recV ''SUBz'', ptr_recV ''SUBw'',
    ptr_recV ''MADDx'', ptr_recV ''MADDy'', ptr_recV ''MADDz'', ptr_recV ''MADDw'',
    ptr_recV ''MSUBx'', ptr_recV ''MSUBy'', ptr_recV ''MSUBz'', ptr_recV ''MSUBw'',
    ptr_recV ''MAXx'', ptr_recV ''MAXy'', ptr_recV ''MAXz'', ptr_recV ''MAXw'',
    ptr_recV ''MINIx'', ptr_recV ''MINIy'', ptr_recV ''MINIz'', ptr_recV ''MINIw'',
    ptr_recV ''MULx'', ptr_recV ''MULy'', ptr_recV ''MULz'', ptr_recV ''MULw'',
    ptr_recV ''MULq'', ptr_recV ''MAXi'', ptr_recV ''MULi'', ptr_recV ''MINIi'',
    ptr_recV ''ADDq'', ptr_recV ''MADDq'', ptr_recV ''ADDi'', ptr_recV ''MADDi'',
    ptr_recV ''SUBq'', ptr_recV ''MSUBq'', ptr_recV ''SUBi'', ptr_recV ''MSUBi'',
    ptr_recV ''ADD'', ptr_recV ''MADD'', ptr_recV ''MUL'', ptr_recV ''MAX'',
    ptr_recV ''SUB'', ptr_recV ''MSUB'', ptr_recV ''OPMSUB'', ptr_recV ''MINI'',
    ptr_recV ''IADD'', ptr_recV ''ISUB'', ptr_recV ''IADDI'', ptr_rec_C2UNK,
    ptr_recV ''IAND'', ptr_recV ''IOR'', ptr_rec_C2UNK, ptr_rec_C2UNK,
    ptr_recVCALLMS, ptr_recVCALLMSR, ptr_rec_C2UNK, ptr_rec_C2UNK,
    ptr_recCOP2_SPEC2, ptr_recCOP2_SPEC2, ptr_recCOP2_SPEC2, ptr_recCOP2_SPEC2]"

definition recCOP2SPECIAL2t :: "handler option list" where
  "recCOP2SPECIAL2t = mk_table 128
   [ptr_recV ''ADDAx'', ptr_recV ''ADDAy'', ptr_recV ''ADDAz'', ptr_recV ''ADDAw'',
    ptr_recV ''SUBAx'', ptr_recV ''SUBAy'', ptr_recV ''SUBAz'', ptr_recV ''SUBAw'',
    ptr_recV ''MADDAx'', ptr_recV ''MADDAy'', ptr_recV ''MADDAz'', ptr_recV ''MADDAw'',
    ptr_recV ''MSUBAx'', ptr_recV ''MSUBAy'', ptr_recV ''MSUBAz'', ptr_recV ''MSUBAw'',
    ptr_recV ''ITOF0'', ptr_recV ''ITOF4'', ptr_recV ''ITOF12'', ptr_recV ''ITOF15'',
    ptr_recV ''FTOI0'', ptr_recV ''FTOI4'', ptr_recV ''FTOI12'', ptr_recV ''FTOI15'',
    ptr_recV ''MULAx'', ptr_recV ''MULAy'', ptr_recV ''MULAz'', ptr_recV ''MULAw'',
    ptr_recV ''MULAq'', ptr_recV ''ABS'', ptr_recV ''MULAi'', ptr_recV ''CLIP'',
    ptr_recV ''ADDAq'', ptr_recV ''MADDAq'', ptr_recV ''ADDAi'', ptr_recV ''MADDAi'',
    ptr_recV ''SUBAq'', ptr_recV ''MSUBAq'', ptr_recV ''SUBAi'', ptr_recV ''MSUBAi'',
    ptr_recV ''ADDA'', ptr_recV ''MADDA'', ptr_recV ''MULA'', ptr_rec_C2UNK,
    ptr_recV ''SUBA'', ptr_recV ''MSUBA'', ptr_recV ''OPMULA'', ptr_recVNOP,
    ptr_recV ''MOVE'', ptr_recV ''MR32'', ptr_rec_C2UNK, ptr_rec_C2UNK,
    ptr_recV ''LQI'', ptr_recV ''SQI'', ptr_recV ''LQD'', ptr_recV ''SQD'',
    ptr_recV ''DIV'', ptr_recV ''SQRT'', ptr_recV ''RSQRT'', ptr_recVWAITQ,
    ptr_recV ''MTIR'', ptr_recV ''MFIR'', ptr_recV ''ILWR'', ptr_recV ''ISWR'',
    ptr_recV ''RNEXT'', ptr_recV ''RGET'', ptr_recV ''RINIT'', ptr_recV ''RXOR'',
    ptr_rec_C2UNK, ptr_rec_C2UNK, ptr_rec_C2UNK, ptr_rec_C2UNK,
    ptr_rec_C2UNK, ptr_rec_C2UNK, ptr_rec_C2UNK, ptr_rec_C2UNK,
    ptr_rec_C2UNK, ptr_rec_C2UNK, ptr_rec_C2UNK, ptr_rec_C2UNK,
    ptr_rec_C2UNK, ptr_rec_C2UNK, ptr_rec_C2UNK, ptr_rec_C2UNK,
    ptr_rec_C2UNK, ptr_rec_C2UNK, ptr_rec_C2UNK, ptr_rec_C2UNK,
    ptr_rec_C2UNK, ptr_rec_C2UNK, ptr_rec_C2UNK, ptr_rec_C2UNK,
    ptr_rec_C2UNK, ptr_rec_C2UNK, ptr_rec_C2UNK, ptr_rec_C2UNK,
    ptr_rec_C2UNK, ptr_rec_C2UNK, ptr_rec_C2UNK, ptr_rec_C2UNK,
    ptr_rec_C2UNK, ptr_rec_C2UNK, ptr_rec_C2UNK, ptr_rec_C2UNK,
    ptr_rec_C2UNK, ptr_rec_C2UNK, ptr_rec_C2UNK, ptr_rec_C2UNK,
    ptr_rec_C2UNK, ptr_rec_C2UNK, ptr_rec_C2UNK, ptr_rec_C2UNK,
    ptr_rec_C2UNK, ptr_rec_C2UNK, ptr_rec_C2UNK, ptr_rec_C2UNK,
    ptr_rec_C2UNK, ptr_rec_C2UNK, ptr_rec_C2UNK, ptr_rec_C2UNK,
    ptr_rec_C2UNK, ptr_rec_C2UNK, ptr_rec_C2UNK, ptr_rec_C2UNK,
    ptr_rec_C2UNK, ptr_rec_C2UNK, ptr_rec_C2UNK, ptr_rec_C2UNK]"

text \<open>
  Calling through a table. Indexing past the array and calling a null pointer have no
  defined behaviour in the source; a function pointer that names no defined function
  would not link. Each is an error value here, and so is running out of call depth.
\<close>

datatype error = IndexOutOfRange | NullHandler | UndefinedFunction | OutOfFuel

definition tbl_lookup :: "handler option list \<Rightarrow> nat \<Rightarrow> error + handler" where
  "tbl_lookup t i =
     (if i < length t then (case t ! i of None \<Rightarrow> Inl NullHandler | Some h \<Rightarrow> Inr h)
      else Inl IndexOutOfRange)"

definition SPEC2_index :: "rst \<Rightarrow> nat" where
  "SPEC2_index r = unat ((cpuRegs_code r AND 3) OR (drop_bit 4 (cpuRegs_code r) AND 0x7c))"

definition recCOP2_SPEC1_prologue :: "rst \<Rightarrow> rst" where
  "recCOP2_SPEC1_prologue = seq
     [emit (Host IFlushCall_FLUSH_EVERYTHING),
      emit (Op xTEST (M (M_VI REG_VPU_STAT)) (I 0x1)),
      emit (XForwardJ JZ skipvuidle),
      emit (XFastCall vu0FinishMicro),
      emit (SetTarget skipvuidle)]"

text \<open>
  \<open>call mVU n h r\<close> calls the function \<open>h\<close> points to; \<open>n\<close> bounds the depth of calls
  through tables, since a table may hold a pointer to a function that indexes a table.
\<close>

fun call :: "mvufn \<Rightarrow> nat \<Rightarrow> handler \<Rightarrow> rst \<Rightarrow> error + rst" where
  "call mVU 0 h r = Inl OutOfFuel"
| "call mVU (Suc n) h r =
     (case h of
        ptr_rec_C2UNK \<Rightarrow> Inr r
      | ptr_recQMFC2 \<Rightarrow> Inr (recQMFC2 r)
      | ptr_recCFC2 \<Rightarrow> Inr (recCFC2 r)
      | ptr_recQMTC2 \<Rightarrow> Inr (recQMTC2 r)
      | ptr_recCTC2 \<Rightarrow> Inr (recCTC2 r)
      | ptr_recCOP2_BC2 \<Rightarrow>
          (case tbl_lookup recCOP2_BC2t (Rt r) of
             Inl e \<Rightarrow> Inl e | Inr h' \<Rightarrow> call mVU n h' r)
      | ptr_recCOP2_SPEC1 \<Rightarrow>
          (let r1 = recCOP2_SPEC1_prologue r in
           case tbl_lookup recCOP2SPECIAL1t (Funct r1) of
             Inl e \<Rightarrow> Inl e | Inr h' \<Rightarrow> call mVU n h' r1)
      | ptr_recCOP2_SPEC2 \<Rightarrow>
          (case tbl_lookup recCOP2SPECIAL2t (SPEC2_index r) of
             Inl e \<Rightarrow> Inl e | Inr h' \<Rightarrow> call mVU n h' r)
      | ptr_recBC2F \<Rightarrow> Inr (recBC2F r)
      | ptr_recBC2T \<Rightarrow> Inr (recBC2T r)
      | ptr_recBC2FL \<Rightarrow> Inr (recBC2FL r)
      | ptr_recBC2TL \<Rightarrow> Inr (recBC2TL r)
      | ptr_recVNOP \<Rightarrow> Inr r
      | ptr_recVWAITQ \<Rightarrow> Inr r
      | ptr_recVCALLMS \<Rightarrow> Inr (INTERPRETATE_COP2_FUNC ''CALLMS'' r)
      | ptr_recVCALLMSR \<Rightarrow> Inr (INTERPRETATE_COP2_FUNC ''CALLMSR'' r)
      | ptr_recV f \<Rightarrow>
          (case map_of rec_cop2_mvu0 f of
             None \<Rightarrow> Inl UndefinedFunction
           | Some mode \<Rightarrow> Inr (REC_COP2_mVU0 mVU f mode r)))"

definition recCOP2 :: "mvufn \<Rightarrow> nat \<Rightarrow> rst \<Rightarrow> error + rst" where
  "recCOP2 mVU n r =
     (case tbl_lookup recCOP2t (Rs r) of Inl e \<Rightarrow> Inl e | Inr h \<Rightarrow> call mVU n h r)"

section \<open>Notions the properties are stated with\<close>

text \<open>The four register-transfer instructions and their translators.\<close>

datatype xfer = CFC2 | CTC2 | QMFC2 | QMTC2

fun rec_xfer :: "xfer \<Rightarrow> rst \<Rightarrow> rst" where
  "rec_xfer CFC2 = recCFC2"
| "rec_xfer CTC2 = recCTC2"
| "rec_xfer QMFC2 = recQMFC2"
| "rec_xfer QMTC2 = recQMTC2"

text \<open>
  The register index whose being zero makes the translator return early: \<open>_Rt_\<close> for the
  moves from the coprocessor, \<open>_Rd_\<close> for the moves to it.
\<close>

fun xfer_reg :: "xfer \<Rightarrow> rst \<Rightarrow> nat" where
  "xfer_reg CFC2 r = Rt r"
| "xfer_reg CTC2 r = Rd r"
| "xfer_reg QMFC2 r = Rt r"
| "xfer_reg QMTC2 r = Rd r"

text \<open>BusyFlag: bit 0 of \<open>VPU_STAT\<close>, which the emitted \<open>xTEST\<close> reads.\<close>

definition busy :: "hstate \<Rightarrow> bool" where
  "busy s = (VI s REG_VPU_STAT AND 1 \<noteq> 0)"

text \<open>The host state once the block's cycle estimate has been added to \<open>cpuRegs.cycle\<close>
  through \<open>eax\<close>.\<close>

definition add_cycles :: "u32 \<Rightarrow> hstate \<Rightarrow> hstate" where
  "add_cycles n s =
     s\<lparr>eax := cpuRegs_cycle s + n,
       zf := (cpuRegs_cycle s + n = 0),
       lt := (sint (cpuRegs_cycle s) + sint n < 0),
       cpuRegs_cycle := cpuRegs_cycle s + n\<rparr>"

text \<open>
  The backlog in the words of the spec:
  \<open>(mainCpuCycle - coprocessorBlockStartCycle) - coprocessorNextBlockCycles\<close>, on the
  32-bit counters and with the main CPU's counter already advanced by the block estimate.
\<close>

definition backlog :: "u32 \<Rightarrow> hstate \<Rightarrow> u32" where
  "backlog blk s = ((cpuRegs_cycle s + blk) - vu0_cycle s) - vu0_nextBlockCycles s"

text \<open>
  The outcome of comparing a backlog value \<open>b\<close>, held in \<open>eax\<close>, with the threshold 8
  (\<open>xCMP(eax, 8)\<close>, \<open>JL\<close>: a signed comparison): below 8 nothing is called, otherwise
  \<open>ExecuteBlockJIT\<close> runs.
\<close>

definition threshold_check :: "env \<Rightarrow> u32 \<Rightarrow> u32 \<Rightarrow> cfg \<Rightarrow> cfg" where
  "threshold_check E blk b c =
     (case c of (s, cs) \<Rightarrow>
        (let s' = flags_sub b 8 ((add_cycles blk s)\<lparr>eax := b\<rparr>)
         in if sint b < 8 then (s', cs) else (ext_sem E ExecuteBlockJIT s', cs @ [ExecuteBlockJIT])))"

text \<open>The functions a table can reach without indexing a further table.\<close>

fun defined_leaf :: "handler \<Rightarrow> bool" where
  "defined_leaf ptr_recCOP2_BC2 = False"
| "defined_leaf ptr_recCOP2_SPEC1 = False"
| "defined_leaf ptr_recCOP2_SPEC2 = False"
| "defined_leaf (ptr_recV f) = (map_of rec_cop2_mvu0 f \<noteq> None)"
| "defined_leaf h = True"

text \<open>
  The block that \<open>recCFC2\<close>, \<open>recCTC2\<close>, \<open>recQMFC2\<close> and \<open>recQMTC2\<close> emit under
  \<open>if (!(cpuRegs.code & 1))\<close>, the opportunistic synchronization check. The copy in
  \<open>recQMTC2\<close> has no \<open>xSUB(eax, ptr32[&vu0Regs.nextBlockCycles])\<close>.
\<close>

definition sync_check_code :: "xfer \<Rightarrow> rst \<Rightarrow> instr list" where
  "sync_check_code op r =
     [Op xTEST (M (M_VI REG_VPU_STAT)) (I 0x1),
      XForwardJ JZ skipvuidle,
      Op xMOV (R EAX) (M M_cpuRegs_cycle),
      Op xADD (R EAX) (I (blockcycles r)),
      Op xMOV (M M_cpuRegs_cycle) (R EAX),
      Op xSUB (R EAX) (M M_vu0_cycle)] @
     (if op = QMTC2 then [] else [Op xSUB (R EAX) (M M_vu0_nextBlockCycles)]) @
     [Op xCMP (R EAX) (I 8),
      XForwardJ JL skip,
      XLoadFarAddr_arg1reg_CpuVU0,
      XFastCall ExecuteBlockJIT,
      SetTarget skip,
      SetTarget skipvuidle]"

text \<open>What \<open>recCTC2\<close> emits before its \<open>switch\<close> when \<open>_Rd_\<close> is not zero.\<close>

definition ctc2_prologue :: "rst \<Rightarrow> instr list" where
  "ctc2_prologue r =
     (if cpuRegs_code r AND 1 \<noteq> 0
      then emitted (COP2_Interlock True) r @ [Host IFlushCall_FLUSH_EVERYTHING]
      else Host IFlushCall_FLUSH_EVERYTHING # sync_check_code CTC2 r)"

text \<open>A table slot that holds a function with the property \<open>P\<close>, and so is not null.\<close>

definition entry_ok :: "(handler \<Rightarrow> bool) \<Rightarrow> handler option \<Rightarrow> bool" where
  "entry_ok P e = (case e of None \<Rightarrow> False | Some h \<Rightarrow> P h)"

text \<open>The code buffer of \<open>r'\<close> is the buffer of \<open>r\<close> with code appended.\<close>

definition grows :: "rst \<Rightarrow> rst \<Rightarrow> bool" where
  "grows r r' = (\<exists>b. out r' = out r @ b)"

subsection \<open>Concrete inputs\<close>

definition rst0 :: "u32 \<Rightarrow> u32 \<Rightarrow> rst" where
  "rst0 code blk = \<lparr>cpuRegs_code = code, blockcycles = blk, mVU_cop2 = 0, mVU_curPC = 0,
     mVU_code = 0, info0 = info_zero, out = [], invoked = []\<rparr>"

definition hs0 :: hstate where
  "hs0 = \<lparr>eax = 0, ecx = 0, edx = 0, gprF0 = 0, zf = False, lt = False,
     xmmT1 = (0, 0, 0, 0), xmmPQ = (0, 0, 0, 0), cpuRegs_cycle = 0,
     GPR = (\<lambda>i. (0, 0, 0, 0)), VI = (\<lambda>i. 0), VF = (\<lambda>i. (0, 0, 0, 0)),
     vu0_cycle = 0, vu0_nextBlockCycles = 0,
     micro_statusflags = (0, 0, 0, 0), micro_macflags = (0, 0, 0, 0)\<rparr>"

text \<open>
  Modelled from the spec: \<open>mVUallocSFLAGd\<close> and \<open>mVUallocSFLAGc\<close> are defined in
  \<^verbatim>\<open>microVU_Alloc.inl\<close>, which is not among the sources. The spec has the scalar status
  word in a normalized form and the vector unit's working copy in a denormalized form
  (\<open>BeginOp\<close> snapshots the denormalized representation, \<open>EndOp\<close> normalizes the new flag
  bits into the scalar representation), and the call sites in \<open>setupMacroOp\<close> and
  \<open>endMacroOp\<close> are commented \<open>Denormalize\<close> and \<open>Normalize\<close>. The two maps below are the
  microVU layout of that pair: the normalized Z, S bits (0, 1) and sticky ZS, SS bits
  (6, 7) against one bit per vector lane in the low halfword of the denormalized word,
  and the remaining status bits moved up by 14.
\<close>

definition microVU_denorm :: "u32 \<Rightarrow> u32" where
  "microVU_denorm x =
     (drop_bit 3 x AND 0x18) OR (push_bit 11 x AND 0x1800) OR (push_bit 14 x AND 0x3cf0000)"

definition microVU_norm :: "u32 \<Rightarrow> u32" where
  "microVU_norm x =
     (if x AND 0x0f00 \<noteq> 0 then 0x0001 else 0) OR
     (if x AND 0xf000 \<noteq> 0 then 0x0002 else 0) OR
     (if x AND 0x000f \<noteq> 0 then 0x0040 else 0) OR
     (if x AND 0x00f0 \<noteq> 0 then 0x0080 else 0) OR
     drop_bit 14 (x AND 0xffff0000)"

text \<open>Collaborators that leave the host state alone, with either pair of flag maps.\<close>

definition env_id :: env where
  "env_id = \<lparr>host_sem = (\<lambda>h s. s), ext_sem = (\<lambda>f s. s), denorm = (\<lambda>x. x), norm = (\<lambda>x. x)\<rparr>"

definition env_mVU :: env where
  "env_mVU = \<lparr>host_sem = (\<lambda>h s. s), ext_sem = (\<lambda>f s. s),
     denorm = microVU_denorm, norm = microVU_norm\<rparr>"

text \<open>A microVU translator that emits nothing and reports a no-op lower instruction.\<close>

definition mVU_nop :: mvufn where
  "mVU_nop f pass r = ((info0 r)\<lparr>lOp_isNOP := True\<rparr>, [])"

definition mVU_op :: mvufn where
  "mVU_op f pass r = (info0 r, [Host (MVUcode f pass)])"

text \<open>Host states: an idle coprocessor far behind the main CPU, a busy one, and one
  with a status word and a source register to transfer.\<close>

definition s_idle :: hstate where "s_idle = hs0\<lparr>cpuRegs_cycle := 1000\<rparr>"

definition s_busy :: hstate where
  "s_busy = hs0\<lparr>VI := (\<lambda>i. if i = REG_VPU_STAT then 1 else 0), cpuRegs_cycle := 20,
     vu0_cycle := 10, vu0_nextBlockCycles := 5\<rparr>"

definition s_status :: hstate where
  "s_status = hs0\<lparr>VI := (\<lambda>i. if i = REG_STATUS_FLAG then 0xABC else 0),
     GPR := (\<lambda>i. if i = 1 then (0x12345, 0, 0, 0) else (0, 0, 0, 0))\<rparr>"

text \<open>A host state at the end of a flag-producing macro instruction: the working flag
  register holds a denormalized zero flag.\<close>

definition s_flags :: hstate where
  "s_flags = hs0\<lparr>gprF0 := 0x800, VI := (\<lambda>i. if i = REG_MAC_FLAG then 0x11 else 0)\<rparr>"

section \<open>Running emitted code: basic facts\<close>

lemma exec_append:
  "exec E m (a @ b) c = (case exec E m a c of (m', c') \<Rightarrow> exec E m' b c')"
  by (induction E m a c rule: exec.induct) simp_all

lemmas emit_simps = seq_def guarded_def emit_def emits_def emitted_def Let_def

lemma and_1_nonneg: "\<not> sint (x AND 1 :: u32) < 0"
proof -
  have "x AND 1 = 0 \<or> x AND 1 = 1"
    by (simp add: and_one_eq) (metis (no_types) even_iff_mod_2_eq_zero odd_iff_mod_2_eq_one)
  then show ?thesis by auto
qed

lemma test_busy_flags:
  "flags_logic (VI s REG_VPU_STAT AND 1) s = s\<lparr>zf := \<not> busy s, lt := False\<rparr>"
  by (simp add: flags_logic_def busy_def and_1_nonneg)

section \<open>The interlock protocol\<close>

lemma interlock_code:
  "emitted (COP2_Interlock b) r =
     [Host IFlushCall_FLUSH_EVERYTHING, Op xTEST (M (M_VI REG_VPU_STAT)) (I 1),
      XForwardJ JZ skipvuidle, Op xMOV (R EAX) (M M_cpuRegs_cycle),
      Op xADD (R EAX) (I (blockcycles r)), Op xMOV (M M_cpuRegs_cycle) (R EAX),
      XLoadFarAddr_arg1reg_CpuVU0, XFastCall ExecuteBlockJIT,
      XFastCall (if b then vu0WaitMicro else vu0FinishMicro), SetTarget skipvuidle]"
  by (simp add: COP2_Interlock_def emit_simps)

lemma exec_interlock:
  "exec E None (emitted (COP2_Interlock b) r) (s, cs) =
     (let s1 = host_sem E IFlushCall_FLUSH_EVERYTHING s;
          f = (if b then vu0WaitMicro else vu0FinishMicro)
      in if busy s1
         then (None, ext_sem E f (ext_sem E ExecuteBlockJIT (add_cycles (blockcycles r) s1)),
               cs @ [ExecuteBlockJIT, f])
         else (None, s1\<lparr>zf := True, lt := False\<rparr>, cs))"
  by (simp add: interlock_code test_busy_flags add_cycles_def flags_add_def Let_def)

lemma xfer_split:
  "cpuRegs_code r AND 1 \<noteq> 0 \<Longrightarrow>
   emitted (rec_xfer op) r =
     emitted (COP2_Interlock (op = CTC2 \<or> op = QMTC2)) r @ drop 10 (emitted (rec_xfer op) r)"
  by (cases op)
     (simp_all add: recCFC2_def recCTC2_def recQMFC2_def recQMTC2_def Rt_def Rd_def
        recCTC2_switch_def TEST_FBRST_RESET_def COP2_Interlock_def emit_simps)

text \<open>
  C2. A register transfer whose interlock bit (bit 0 of the instruction word) is set
  starts with the code of \<open>COP2_Interlock\<close>, with \<open>mBitSync\<close> false for CFC2 and QMFC2 and
  true for CTC2 and QMTC2. When that code runs with BusyFlag set, the block's cycle
  estimate is added to \<open>cpuRegs.cycle\<close>, then \<open>ExecuteBlockJIT\<close> and then \<open>_vu0FinishMicro\<close>
  (\<open>mBitSync\<close> false) or \<open>_vu0WaitMicro\<close> (\<open>mBitSync\<close> true) are called, and only then the
  rest of the translation, the transfer body, runs. With BusyFlag clear the cycle update
  and the calls are skipped and the body runs at once.
\<close>

theorem interlock_then_transfer:
  assumes "cpuRegs_code r AND 1 \<noteq> 0"
  shows "\<exists>body.
     emitted (rec_xfer op) r = emitted (COP2_Interlock (op = CTC2 \<or> op = QMTC2)) r @ body \<and>
     exec E None (emitted (rec_xfer op) r) (s, cs) =
       (let s1 = host_sem E IFlushCall_FLUSH_EVERYTHING s;
            f = (if op = CTC2 \<or> op = QMTC2 then vu0WaitMicro else vu0FinishMicro)
        in if busy s1
           then exec E None body
                  (ext_sem E f (ext_sem E ExecuteBlockJIT (add_cycles (blockcycles r) s1)),
                   cs @ [ExecuteBlockJIT, f])
           else exec E None body (s1\<lparr>zf := True, lt := False\<rparr>, cs))"
proof -
  let ?body = "drop 10 (emitted (rec_xfer op) r)"
  have split: "emitted (rec_xfer op) r =
      emitted (COP2_Interlock (op = CTC2 \<or> op = QMTC2)) r @ ?body"
    using assms by (rule xfer_split)
  have "exec E None (emitted (COP2_Interlock (op = CTC2 \<or> op = QMTC2)) r @ ?body) (s, cs) =
       (let s1 = host_sem E IFlushCall_FLUSH_EVERYTHING s;
            f = (if op = CTC2 \<or> op = QMTC2 then vu0WaitMicro else vu0FinishMicro)
        in if busy s1
           then exec E None ?body
                  (ext_sem E f (ext_sem E ExecuteBlockJIT (add_cycles (blockcycles r) s1)),
                   cs @ [ExecuteBlockJIT, f])
           else exec E None ?body (s1\<lparr>zf := True, lt := False\<rparr>, cs))"
    by (simp only: exec_append exec_interlock Let_def) simp
  with split show ?thesis by metis
qed

theorem interlock_then_transfer_witness:
  "cpuRegs_code (rst0 0x48418001 5) AND 1 \<noteq> 0 \<and>
   (\<exists>body.
     emitted recCFC2 (rst0 0x48418001 5) =
       emitted (COP2_Interlock False) (rst0 0x48418001 5) @ body \<and>
     exec env_id None (emitted recCFC2 (rst0 0x48418001 5))
        (hs0\<lparr>VI := (\<lambda>i. if i = REG_VPU_STAT then 1 else 0)\<rparr>, []) =
     exec env_id None body
        (add_cycles 5 (hs0\<lparr>VI := (\<lambda>i. if i = REG_VPU_STAT then 1 else 0)\<rparr>),
         [ExecuteBlockJIT, vu0FinishMicro]))"
proof -
  have bit: "cpuRegs_code (rst0 0x48418001 5) AND 1 \<noteq> 0"
    by (simp add: rst0_def)
  show ?thesis
    using bit interlock_then_transfer [OF bit, of CFC2 env_id
        "hs0\<lparr>VI := (\<lambda>i. if i = REG_VPU_STAT then 1 else 0)\<rparr>" "[]"]
    by (simp add: env_id_def busy_def rst0_def Let_def)
qed

text \<open>
  C9. When the register index that guards the translation is zero (\<open>_Rt_\<close> for CFC2 and
  QMFC2, \<open>_Rd_\<close> for CTC2 and QMTC2) the translator emits no transfer body. With the
  interlock bit set it emits exactly the ten instructions of the interlock protocol and
  nothing after them: the flush, the busy test and the jump over the rest when idle, the
  cycle update, \<open>ExecuteBlockJIT\<close>, and \<open>_vu0FinishMicro\<close> (CFC2, QMFC2) or
  \<open>_vu0WaitMicro\<close> (CTC2, QMTC2). Run with BusyFlag set, that code adds the block's cycle
  estimate to \<open>cpuRegs.cycle\<close> and makes the two calls in that order; run with BusyFlag
  clear it only flushes and tests. With the interlock bit clear the translator emits
  nothing at all, so the opportunistic check is skipped as well and running the
  translation leaves the host state and the call log as they were.
\<close>

theorem zero_register_emits_no_body:
  assumes "xfer_reg op r = 0"
  shows "emitted (rec_xfer op) r =
     (if cpuRegs_code r AND 1 \<noteq> 0
      then [Host IFlushCall_FLUSH_EVERYTHING, Op xTEST (M (M_VI REG_VPU_STAT)) (I 1),
            XForwardJ JZ skipvuidle, Op xMOV (R EAX) (M M_cpuRegs_cycle),
            Op xADD (R EAX) (I (blockcycles r)), Op xMOV (M M_cpuRegs_cycle) (R EAX),
            XLoadFarAddr_arg1reg_CpuVU0, XFastCall ExecuteBlockJIT,
            XFastCall (if op = CTC2 \<or> op = QMTC2 then vu0WaitMicro else vu0FinishMicro),
            SetTarget skipvuidle]
      else [])
   \<and> exec E None (emitted (rec_xfer op) r) (s, cs) =
     (if cpuRegs_code r AND 1 \<noteq> 0
      then (let s1 = host_sem E IFlushCall_FLUSH_EVERYTHING s;
                f = (if op = CTC2 \<or> op = QMTC2 then vu0WaitMicro else vu0FinishMicro)
            in if busy s1
               then (None,
                     ext_sem E f (ext_sem E ExecuteBlockJIT (add_cycles (blockcycles r) s1)),
                     cs @ [ExecuteBlockJIT, f])
               else (None, s1\<lparr>zf := True, lt := False\<rparr>, cs))
      else (None, s, cs))"
proof -
  have code: "emitted (rec_xfer op) r =
     (if cpuRegs_code r AND 1 \<noteq> 0
      then emitted (COP2_Interlock (op = CTC2 \<or> op = QMTC2)) r else [])"
    using assms
    by (cases op)
       (simp_all add: recCFC2_def recCTC2_def recQMFC2_def recQMTC2_def Rt_def Rd_def
          COP2_Interlock_def emit_simps)
  show ?thesis
  proof (cases "cpuRegs_code r AND 1 \<noteq> 0")
    case True
    with code have c: "emitted (rec_xfer op) r =
        emitted (COP2_Interlock (op = CTC2 \<or> op = QMTC2)) r" by simp
    have "emitted (rec_xfer op) r =
       [Host IFlushCall_FLUSH_EVERYTHING, Op xTEST (M (M_VI REG_VPU_STAT)) (I 1),
        XForwardJ JZ skipvuidle, Op xMOV (R EAX) (M M_cpuRegs_cycle),
        Op xADD (R EAX) (I (blockcycles r)), Op xMOV (M M_cpuRegs_cycle) (R EAX),
        XLoadFarAddr_arg1reg_CpuVU0, XFastCall ExecuteBlockJIT,
        XFastCall (if op = CTC2 \<or> op = QMTC2 then vu0WaitMicro else vu0FinishMicro),
        SetTarget skipvuidle]"
      unfolding c by (rule interlock_code)
    moreover have "exec E None (emitted (rec_xfer op) r) (s, cs) =
       (let s1 = host_sem E IFlushCall_FLUSH_EVERYTHING s;
            f = (if op = CTC2 \<or> op = QMTC2 then vu0WaitMicro else vu0FinishMicro)
        in if busy s1
           then (None,
                 ext_sem E f (ext_sem E ExecuteBlockJIT (add_cycles (blockcycles r) s1)),
                 cs @ [ExecuteBlockJIT, f])
           else (None, s1\<lparr>zf := True, lt := False\<rparr>, cs))"
      unfolding c by (rule exec_interlock)
    ultimately show ?thesis using True by simp
  next
    case False
    with code show ?thesis by simp
  qed
qed

theorem zero_register_emits_no_body_witness:
  "xfer_reg QMTC2 (rst0 0x48A10001 5) = 0 \<and> busy s_busy \<and>
   length (emitted recQMTC2 (rst0 0x48A10001 5)) = 10 \<and>
   exec env_id None (emitted recQMTC2 (rst0 0x48A10001 5)) (s_busy, []) =
     (None, add_cycles 5 s_busy, [ExecuteBlockJIT, vu0WaitMicro]) \<and>
   cpuRegs_cycle (add_cycles 5 s_busy) = 25 \<and>
   xfer_reg CFC2 (rst0 0x48400000 5) = 0 \<and>
   emitted recCFC2 (rst0 0x48400000 5) = [] \<and>
   exec env_id None (emitted recCFC2 (rst0 0x48400000 5)) (s_busy, []) = (None, s_busy, [])"
proof -
  have a: "xfer_reg QMTC2 (rst0 0x48A10001 5) = 0"
    by (simp add: rst0_def Rd_def)
  have b: "xfer_reg CFC2 (rst0 0x48400000 5) = 0"
    by (simp add: rst0_def Rt_def)
  have abit: "cpuRegs_code (rst0 0x48A10001 5) AND 1 \<noteq> 0"
    by (simp add: rst0_def)
  have bbit: "\<not> cpuRegs_code (rst0 0x48400000 5) AND 1 \<noteq> 0"
    by (simp add: rst0_def)
  have blk: "blockcycles (rst0 0x48A10001 5) = 5"
    by (simp add: rst0_def)
  have h: "host_sem env_id k x = x" "ext_sem env_id f x = x" for k f x
    by (simp_all add: env_id_def)
  have u: "busy s_busy" by (simp add: s_busy_def hs0_def busy_def)
  have v: "cpuRegs_cycle (add_cycles 5 s_busy) = 25"
    by (simp add: add_cycles_def s_busy_def hs0_def)
  note ta = zero_register_emits_no_body [OF a, of env_id s_busy "[]"]
  note tb = zero_register_emits_no_body [OF b, of env_id s_busy "[]"]
  have 1: "length (emitted recQMTC2 (rst0 0x48A10001 5)) = 10"
    using ta [THEN conjunct1] abit by simp
  have 2: "exec env_id None (emitted recQMTC2 (rst0 0x48A10001 5)) (s_busy, []) =
     (None, add_cycles 5 s_busy, [ExecuteBlockJIT, vu0WaitMicro])"
    using ta [THEN conjunct2] abit u by (simp add: blk h Let_def)
  have 3: "emitted recCFC2 (rst0 0x48400000 5) = []"
    using tb [THEN conjunct1] bbit by simp
  have 4: "exec env_id None (emitted recCFC2 (rst0 0x48400000 5)) (s_busy, []) =
     (None, s_busy, [])"
    using tb [THEN conjunct2] bbit by simp
  from a b u v 1 2 3 4 show ?thesis by blast
qed

section \<open>The opportunistic synchronization check\<close>

lemma exec_sync_check_idle:
  "\<not> busy s \<Longrightarrow>
   exec E None (sync_check_code op r) (s, cs) = (None, s\<lparr>zf := True, lt := False\<rparr>, cs)"
  by (simp add: sync_check_code_def test_busy_flags)

lemma exec_sync_check_busy:
  "busy s \<Longrightarrow> op \<noteq> QMTC2 \<Longrightarrow>
   exec E None (sync_check_code op r) (s, cs) =
     (None, threshold_check E (blockcycles r) (backlog (blockcycles r) s) (s, cs))"
  by (simp add: sync_check_code_def test_busy_flags threshold_check_def backlog_def
      add_cycles_def flags_add_def flags_sub_def Let_def)

lemma xfer_split_clear:
  "\<not> cpuRegs_code r AND 1 \<noteq> 0 \<Longrightarrow> xfer_reg op r \<noteq> 0 \<Longrightarrow>
   emitted (rec_xfer op) r =
     Host IFlushCall_FLUSH_EVERYTHING # sync_check_code op r @
       drop (Suc (length (sync_check_code op r))) (emitted (rec_xfer op) r)"
  by (cases op)
     (simp_all add: recCFC2_def recCTC2_def recQMFC2_def recQMTC2_def Rt_def Rd_def
        recCTC2_switch_def TEST_FBRST_RESET_def sync_check_code_def emit_simps)

text \<open>
  The copy of the check in \<open>recQMTC2\<close> compares \<open>cpuRegs.cycle - vu0Regs.cycle\<close> with 8
  and never subtracts \<open>nextBlockCycles\<close>: with the coprocessor busy, 10 cycles behind and
  5 cycles of the next block to come, QMTC2 runs the pending block although the backlog
  is 5, while QMFC2 in the same state does not.
\<close>

lemma QMTC2_ignores_nextBlockCycles:
  "busy s_busy \<and> sint (backlog 0 s_busy) = 5 \<and>
   snd (snd (exec env_id None (emitted recQMTC2 (rst0 0x48A10800 0)) (s_busy, [])))
     = [ExecuteBlockJIT] \<and>
   snd (snd (exec env_id None (emitted recQMFC2 (rst0 0x48210800 0)) (s_busy, []))) = []"
  by (simp add: s_busy_def hs0_def busy_def backlog_def rst0_def recQMTC2_def recQMFC2_def
      Rt_def Rd_def emit_simps env_id_def flags_logic_def flags_add_def flags_sub_def
      REG_VPU_STAT_def)

text \<open>
  C3, as the code has it. For CFC2, CTC2 and QMFC2 with the interlock bit clear and a
  non-zero guarding register index, the translation starts with the flush and the
  check; run, the check calls \<open>ExecuteBlockJIT\<close> exactly when BusyFlag is set and the
  backlog \<open>((cpuRegs.cycle + block cycles) - vu0.cycle) - vu0.nextBlockCycles\<close>, read as a
  signed 32-bit number, is at least 8. At 7 or fewer, and whenever the coprocessor is
  idle, the pending block is not executed.
\<close>

theorem block_executed_iff_busy_backlog:
  assumes "\<not> cpuRegs_code r AND 1 \<noteq> 0" and "xfer_reg op r \<noteq> 0" and "op \<noteq> QMTC2"
  shows "\<exists>body.
     emitted (rec_xfer op) r =
       Host IFlushCall_FLUSH_EVERYTHING # sync_check_code op r @ body \<and>
     snd (snd (exec E None (Host IFlushCall_FLUSH_EVERYTHING # sync_check_code op r) (s, cs))) =
       cs @ (if busy (host_sem E IFlushCall_FLUSH_EVERYTHING s) \<and>
                8 \<le> sint (backlog (blockcycles r) (host_sem E IFlushCall_FLUSH_EVERYTHING s))
             then [ExecuteBlockJIT] else [])"
proof -
  let ?s1 = "host_sem E IFlushCall_FLUSH_EVERYTHING s"
  have code: "emitted (rec_xfer op) r =
     Host IFlushCall_FLUSH_EVERYTHING # sync_check_code op r @
       drop (Suc (length (sync_check_code op r))) (emitted (rec_xfer op) r)"
    using assms(1,2) by (rule xfer_split_clear)
  have run: "snd (snd (exec E None (sync_check_code op r) (?s1, cs))) =
       cs @ (if busy ?s1 \<and> 8 \<le> sint (backlog (blockcycles r) ?s1)
             then [ExecuteBlockJIT] else [])"
  proof (cases "busy ?s1")
    case True
    with assms(3) show ?thesis
      by (simp add: exec_sync_check_busy threshold_check_def Let_def not_less)
  next
    case False
    then show ?thesis by (simp add: exec_sync_check_idle)
  qed
  from run have "snd (snd (exec E None
        (Host IFlushCall_FLUSH_EVERYTHING # sync_check_code op r) (s, cs))) =
       cs @ (if busy ?s1 \<and> 8 \<le> sint (backlog (blockcycles r) ?s1)
             then [ExecuteBlockJIT] else [])"
    by simp
  with code show ?thesis by blast
qed

theorem block_executed_iff_busy_backlog_witness:
  "\<not> cpuRegs_code (rst0 0x48C18000 3) AND 1 \<noteq> 0 \<and> xfer_reg CTC2 (rst0 0x48C18000 3) \<noteq> 0 \<and>
   CTC2 \<noteq> QMTC2 \<and> busy s_busy \<and> sint (backlog 3 s_busy) = 8 \<and>
   snd (snd (exec env_id None
        (Host IFlushCall_FLUSH_EVERYTHING # sync_check_code CTC2 (rst0 0x48C18000 3))
        (s_busy, []))) = [ExecuteBlockJIT]"
proof -
  have a: "\<not> cpuRegs_code (rst0 0x48C18000 3) AND 1 \<noteq> 0"
    by (simp add: rst0_def)
  have b: "xfer_reg CTC2 (rst0 0x48C18000 3) \<noteq> 0"
    by (simp add: rst0_def Rd_def)
  have c: "CTC2 \<noteq> QMTC2" by simp
  have u: "busy s_busy" by (simp add: s_busy_def hs0_def busy_def)
  have v: "sint (backlog 3 s_busy) = 8" by (simp add: s_busy_def hs0_def backlog_def)
  show ?thesis
    using a b u v block_executed_iff_busy_backlog [OF a b c, of env_id s_busy "[]"]
    by (simp add: env_id_def rst0_def)
qed

text \<open>
  The statement of the spec fails at three inputs: an idle coprocessor with a backlog of 1004
  cycles (QMFC2: the block is not executed), a busy one with a backlog of 5 (QMTC2: the
  block is executed), and CFC2 with \<open>_Rt_\<close> zero, busy, with a backlog of 10 (nothing is
  emitted, so nothing is executed).
\<close>

theorem backlog_threshold_counterexample:
  "\<not> busy s_idle \<and> 8 \<le> sint (backlog 4 s_idle) \<and>
   snd (snd (exec env_id None (emitted recQMFC2 (rst0 0x48210800 4)) (s_idle, []))) = [] \<and>
   busy s_busy \<and> sint (backlog 0 s_busy) \<le> 7 \<and>
   snd (snd (exec env_id None (emitted recQMTC2 (rst0 0x48A10800 0)) (s_busy, [])))
     = [ExecuteBlockJIT] \<and>
   8 \<le> sint (backlog 5 s_busy) \<and>
   snd (snd (exec env_id None (emitted recCFC2 (rst0 0x48408000 5)) (s_busy, []))) = []"
  by (simp add: s_idle_def s_busy_def hs0_def busy_def backlog_def rst0_def recQMTC2_def
      recQMFC2_def recCFC2_def Rt_def Rd_def emit_simps env_id_def flags_logic_def
      flags_add_def flags_sub_def REG_VPU_STAT_def)

text \<open>
  C5, as the code has it. For every register transfer with the interlock bit clear and a
  non-zero guarding register index the translation starts with the flush and the check,
  and the check is guarded by BusyFlag. With BusyFlag clear it is skipped whole, for all
  four instructions: the cycle counter is not advanced, no backlog is computed or
  compared, nothing is called, and the state the body starts from is the flushed state
  with the flags of the \<open>xTEST\<close>. For CFC2, CTC2 and QMFC2, with BusyFlag set the counter
  is advanced by the block estimate, the backlog is left in \<open>eax\<close> and compared with 8,
  and the pending block is executed exactly when the backlog is at least 8.
\<close>

theorem sync_check_guarded_by_busy:
  assumes "\<not> cpuRegs_code r AND 1 \<noteq> 0" and "xfer_reg op r \<noteq> 0"
  shows "\<exists>body.
     emitted (rec_xfer op) r =
       Host IFlushCall_FLUSH_EVERYTHING # sync_check_code op r @ body \<and>
     (\<not> busy (host_sem E IFlushCall_FLUSH_EVERYTHING s) \<longrightarrow>
        exec E None (Host IFlushCall_FLUSH_EVERYTHING # sync_check_code op r) (s, cs) =
          (None, (host_sem E IFlushCall_FLUSH_EVERYTHING s)\<lparr>zf := True, lt := False\<rparr>, cs)) \<and>
     (busy (host_sem E IFlushCall_FLUSH_EVERYTHING s) \<and> op \<noteq> QMTC2 \<longrightarrow>
        exec E None (Host IFlushCall_FLUSH_EVERYTHING # sync_check_code op r) (s, cs) =
          (None, threshold_check E (blockcycles r)
             (backlog (blockcycles r) (host_sem E IFlushCall_FLUSH_EVERYTHING s))
             (host_sem E IFlushCall_FLUSH_EVERYTHING s, cs)))"
proof -
  have "emitted (rec_xfer op) r =
     Host IFlushCall_FLUSH_EVERYTHING # sync_check_code op r @
       drop (Suc (length (sync_check_code op r))) (emitted (rec_xfer op) r)"
    using assms by (rule xfer_split_clear)
  then show ?thesis
    by (intro exI conjI impI, assumption)
       (simp_all add: exec_sync_check_idle exec_sync_check_busy)
qed

theorem sync_check_guarded_by_busy_witness:
  "\<not> cpuRegs_code (rst0 0x48418000 4) AND 1 \<noteq> 0 \<and> xfer_reg CFC2 (rst0 0x48418000 4) \<noteq> 0 \<and>
   \<not> busy s_idle \<and> busy s_busy \<and>
   exec env_id None (Host IFlushCall_FLUSH_EVERYTHING # sync_check_code CFC2 (rst0 0x48418000 4))
      (s_idle, []) = (None, s_idle\<lparr>zf := True, lt := False\<rparr>, []) \<and>
   exec env_id None (Host IFlushCall_FLUSH_EVERYTHING # sync_check_code CFC2 (rst0 0x48418000 4))
      (s_busy, []) = (None, threshold_check env_id 4 (backlog 4 s_busy) (s_busy, []))"
proof -
  have a: "\<not> cpuRegs_code (rst0 0x48418000 4) AND 1 \<noteq> 0"
    by (simp add: rst0_def)
  have b: "xfer_reg CFC2 (rst0 0x48418000 4) \<noteq> 0"
    by (simp add: rst0_def Rt_def)
  have i: "\<not> busy s_idle" by (simp add: s_idle_def hs0_def busy_def)
  have u: "busy s_busy" by (simp add: s_busy_def hs0_def busy_def)
  show ?thesis
    using a b i u sync_check_guarded_by_busy [OF a b, of env_id s_idle "[]"]
      sync_check_guarded_by_busy [OF a b, of env_id s_busy "[]"]
    by (simp add: env_id_def rst0_def)
qed

text \<open>
  The statement of the spec fails with the coprocessor idle: CFC2 with the interlock bit
  clear, a backlog of 1004 cycles, and the translated code neither advances the cycle
  counter (it stays 1000) nor calls anything.
\<close>

theorem idle_sync_check_counterexample:
  "\<not> busy s_idle \<and> 8 \<le> sint (backlog 4 s_idle) \<and>
   snd (snd (exec env_id None (emitted recCFC2 (rst0 0x48418000 4)) (s_idle, []))) = [] \<and>
   cpuRegs_cycle (fst (snd (exec env_id None (emitted recCFC2 (rst0 0x48418000 4)) (s_idle, []))))
     = 1000"
  by (simp add: s_idle_def hs0_def busy_def backlog_def rst0_def recCFC2_def Rt_def Rd_def
      emit_simps env_id_def flags_logic_def REG_VPU_STAT_def REG_STATUS_FLAG_def)

section \<open>CTC2: the control registers\<close>

lemma ctc2_code:
  "Rd r \<noteq> 0 \<Longrightarrow> emitted recCTC2 r = ctc2_prologue r @ emitted recCTC2_switch r"
  by (simp add: recCTC2_def Rt_def Rd_def recCTC2_switch_def TEST_FBRST_RESET_def
      COP2_Interlock_def sync_check_code_def ctc2_prologue_def emit_simps)

lemma exec_ctc2_prologue: "fst (exec E None (ctc2_prologue r) c) = None"
proof (cases c)
  case (Pair s cs)
  show ?thesis
  proof (cases "cpuRegs_code r AND 1 \<noteq> 0")
    case True
    then show ?thesis
      by (simp add: ctc2_prologue_def Pair exec_append exec_interlock Let_def)
  next
    case False
    then show ?thesis
      by (cases "busy (host_sem E IFlushCall_FLUSH_EVERYTHING s)")
         (simp_all add: ctc2_prologue_def Pair exec_sync_check_idle exec_sync_check_busy)
  qed
qed

lemma status_switch_code:
  assumes "Rd r = REG_STATUS_FLAG"
  shows "emitted recCTC2_switch r =
    (if Rt r \<noteq> 0 then
       [Op xMOV (R EAX) (M (M_GPR_UL (Rt r) 0)), Op xAND (R EAX) (I 0xFC0),
        Op xAND (M (M_VI REG_STATUS_FLAG)) (I 0x3F), Op xOR (M (M_VI REG_STATUS_FLAG)) (R EAX)]
     else [Op xAND (M (M_VI REG_STATUS_FLAG)) (I 0x3F)]) @
    [MVUallocSFLAGd (M_VI REG_STATUS_FLAG), XMOVDZX XmmT1 (R EAX), XSHUF_PS XmmT1 XmmT1 0,
     XMOVAPS_mx M_micro_statusflags XmmT1]"
  using assms
  by (simp add: recCTC2_switch_def emit_simps REG_STATUS_FLAG_def REG_MAC_FLAG_def
      REG_TPC_def REG_VPU_STAT_def REG_R_def)

text \<open>
  C7. For CTC2 to the status-flag register the translation is the prologue (interlock
  or check), which ends with no jump pending, followed by the code of the
  \<open>REG_STATUS_FLAG\<close> case. Run from any state, that code leaves in the scalar status
  register \<open>(old AND 0x3F) OR (GPR[rt].UL[0] AND 0xFC0)\<close> when \<open>_Rt_\<close> is not zero and
  \<open>old AND 0x3F\<close> when it is, and then re-derives \<open>micro_statusflags\<close> from the new scalar
  value: all four lanes hold what \<open>mVUallocSFLAGd\<close> makes of it.
\<close>

theorem ctc2_status_write:
  assumes "Rd r = REG_STATUS_FLAG"
  shows "emitted recCTC2 r = ctc2_prologue r @ emitted recCTC2_switch r \<and>
     fst (exec E None (ctc2_prologue r) c0) = None \<and>
     (\<exists>s'. exec E None (emitted recCTC2_switch r) (s, cs) = (None, s', cs) \<and>
        VI s' REG_STATUS_FLAG =
          (if Rt r \<noteq> 0
           then (VI s REG_STATUS_FLAG AND 0x3F) OR (lane 0 (GPR s (Rt r)) AND 0xFC0)
           else VI s REG_STATUS_FLAG AND 0x3F) \<and>
        micro_statusflags s' = rep4 (denorm E (VI s' REG_STATUS_FLAG)))"
proof -
  have "Rd r \<noteq> 0" using assms by (simp add: REG_STATUS_FLAG_def)
  then have "emitted recCTC2 r = ctc2_prologue r @ emitted recCTC2_switch r"
    by (rule ctc2_code)
  moreover have "\<exists>s'. exec E None (emitted recCTC2_switch r) (s, cs) = (None, s', cs) \<and>
        VI s' REG_STATUS_FLAG =
          (if Rt r \<noteq> 0
           then (VI s REG_STATUS_FLAG AND 0x3F) OR (lane 0 (GPR s (Rt r)) AND 0xFC0)
           else VI s REG_STATUS_FLAG AND 0x3F) \<and>
        micro_statusflags s' = rep4 (denorm E (VI s' REG_STATUS_FLAG))"
    by (simp add: status_switch_code [OF assms] flags_logic_def rep4_def)
  ultimately show ?thesis by (simp add: exec_ctc2_prologue)
qed

theorem ctc2_status_write_witness:
  "Rd (rst0 0x48C18000 0) = REG_STATUS_FLAG \<and>
   (\<exists>s'. exec env_mVU None (emitted recCTC2_switch (rst0 0x48C18000 0)) (s_status, [])
            = (None, s', []) \<and>
      VI s' REG_STATUS_FLAG = 0x37C \<and>
      micro_statusflags s' = rep4 (microVU_denorm 0x37C))"
proof -
  have a: "Rd (rst0 0x48C18000 0) = REG_STATUS_FLAG"
    by (simp add: rst0_def Rd_def REG_STATUS_FLAG_def)
  have t: "Rt (rst0 0x48C18000 0) = 1"
    by (simp add: rst0_def Rt_def)
  have d: "denorm env_mVU = microVU_denorm"
    by (simp add: env_mVU_def)
  have v: "(VI s_status REG_STATUS_FLAG AND 0x3F) OR (lane 0 (GPR s_status 1) AND 0xFC0) = 0x37C"
    by (simp add: s_status_def hs0_def)
  from ctc2_status_write [OF a, of env_mVU "(hs0, [])" s_status "[]"]
  obtain s' where
    "exec env_mVU None (emitted recCTC2_switch (rst0 0x48C18000 0)) (s_status, []) = (None, s', [])"
    "VI s' REG_STATUS_FLAG = 0x37C"
    "micro_statusflags s' = rep4 (microVU_denorm (VI s' REG_STATUS_FLAG))"
    unfolding t d v by auto
  then show ?thesis using a by auto
qed

text \<open>
  C10. For CTC2 to the mac-flag, TPC or VPU\_STAT register the \<open>switch\<close> emits nothing
  and changes nothing of the recompiler's state: the whole translation is the prologue,
  and the transfer body, being empty, leaves every register, flag and memory cell of the
  host state as it finds them and calls nothing.
\<close>

theorem ctc2_read_only_registers:
  assumes "Rd r = REG_MAC_FLAG \<or> Rd r = REG_TPC \<or> Rd r = REG_VPU_STAT"
  shows "recCTC2_switch r = r \<and> emitted recCTC2 r = ctc2_prologue r \<and>
         exec E None (emitted recCTC2_switch r) (s, cs) = (None, s, cs)"
proof -
  have sw: "recCTC2_switch r = r" using assms by (simp add: recCTC2_switch_def)
  have "Rd r \<noteq> 0"
    using assms by (auto simp: REG_MAC_FLAG_def REG_TPC_def REG_VPU_STAT_def)
  then have "emitted recCTC2 r = ctc2_prologue r @ emitted recCTC2_switch r"
    by (rule ctc2_code)
  with sw show ?thesis by (simp add: emitted_def)
qed

theorem ctc2_read_only_registers_witness:
  "Rd (rst0 0x48C18800 0) = REG_MAC_FLAG \<and>
   recCTC2_switch (rst0 0x48C18800 0) = rst0 0x48C18800 0 \<and>
   emitted recCTC2 (rst0 0x48C18800 0) = ctc2_prologue (rst0 0x48C18800 0) \<and>
   exec env_id None (emitted recCTC2_switch (rst0 0x48C18800 0)) (s_status, [])
     = (None, s_status, [])"
proof -
  have a: "Rd (rst0 0x48C18800 0) = REG_MAC_FLAG"
    by (simp add: rst0_def Rd_def REG_MAC_FLAG_def)
  then have b: "Rd (rst0 0x48C18800 0) = REG_MAC_FLAG \<or> Rd (rst0 0x48C18800 0) = REG_TPC
      \<or> Rd (rst0 0x48C18800 0) = REG_VPU_STAT" by simp
  show ?thesis
    using a ctc2_read_only_registers [OF b, of env_id s_status "[]"] by simp
qed

section \<open>The envelope of a macro instruction\<close>

lemma endMacroOp_code:
  "emitted (endMacroOp mode) r =
     (if mode AND 0x02 \<noteq> 0 then [XMOVSS (M_VI REG_Q) XmmPQ] else []) @
     (if mode AND 0x10 \<noteq> 0
      then [MVUallocSFLAGc EAX GPRF0 0, Op xMOV (M (M_VI REG_STATUS_FLAG)) (R EAX)] else []) @
     [Host RegAlloc_flushAll] @
     (if mode AND 0x10 \<noteq> 0
      then [MVUallocSFLAGd (M_VI REG_STATUS_FLAG), XMOVDZX XmmT1 (R EAX),
            XSHUF_PS XmmT1 XmmT1 0, XMOVAPS_mx M_micro_statusflags XmmT1,
            XMOVDZX XmmT1 (M (M_VI REG_MAC_FLAG)), XSHUF_PS XmmT1 XmmT1 0,
            XMOVAPS_mx M_micro_macflags XmmT1] else [])"
  by (simp add: endMacroOp_def emit_simps)

text \<open>
  C1, as the code has it. After the code of \<open>endMacroOp\<close> has run for a mode with bit
  0x10 set, \<open>micro_macflags\<close> is the 4-lane replication of \<open>VI[REG_MAC_FLAG]\<close>, and
  \<open>micro_statusflags\<close> is the 4-lane replication of the denormalized form of
  \<open>VI[REG_STATUS_FLAG]\<close>, the value \<open>mVUallocSFLAGd\<close> leaves in \<open>eax\<close>; the status copy
  equals the replication of the scalar register itself only where denormalizing leaves
  the word as it is.
\<close>

theorem endMacroOp_flag_copies:
  assumes "mode AND 0x10 \<noteq> 0"
  shows "\<exists>s'. exec E None (emitted (endMacroOp mode) r) (s, cs) = (None, s', cs) \<and>
     micro_statusflags s' = rep4 (denorm E (VI s' REG_STATUS_FLAG)) \<and>
     micro_macflags s' = rep4 (VI s' REG_MAC_FLAG)"
  using assms by (simp add: endMacroOp_code rep4_def)

theorem endMacroOp_flag_copies_witness:
  "(0x10 :: u32) AND 0x10 \<noteq> 0 \<and>
   (\<exists>s'. exec env_mVU None (emitted (endMacroOp 0x10) (rst0 0 0)) (s_flags, []) = (None, s', []) \<and>
      micro_statusflags s' = rep4 (microVU_denorm (VI s' REG_STATUS_FLAG)) \<and>
      micro_macflags s' = rep4 (VI s' REG_MAC_FLAG))"
proof -
  have a: "(0x10 :: u32) AND 0x10 \<noteq> 0" by simp
  have d: "denorm env_mVU = microVU_denorm" by (simp add: env_mVU_def)
  show ?thesis
    using a endMacroOp_flag_copies [OF a, of env_mVU "rst0 0 0" s_flags "[]"]
    unfolding d by simp
qed

text \<open>
  The statement of the spec fails where the status word is not zero: with a zero flag computed
  by the instruction, the scalar status register ends as 1 while every lane of
  \<open>micro_statusflags\<close> holds 0x800.
\<close>

theorem endMacroOp_status_counterexample:
  "VI (fst (snd (exec env_mVU None (emitted (endMacroOp 0x10) (rst0 0 0)) (s_flags, []))))
      REG_STATUS_FLAG = 1 \<and>
   micro_statusflags (fst (snd (exec env_mVU None (emitted (endMacroOp 0x10) (rst0 0 0))
      (s_flags, [])))) = (0x800, 0x800, 0x800, 0x800) \<and>
   micro_statusflags (fst (snd (exec env_mVU None (emitted (endMacroOp 0x10) (rst0 0 0))
      (s_flags, [])))) \<noteq>
   rep4 (VI (fst (snd (exec env_mVU None (emitted (endMacroOp 0x10) (rst0 0 0)) (s_flags, []))))
      REG_STATUS_FLAG)"
  by (simp add: endMacroOp_code rep4_def env_mVU_def s_flags_def hs0_def microVU_denorm_def
      microVU_norm_def REG_STATUS_FLAG_def REG_MAC_FLAG_def)

lemma setup_invoked: "invoked (setupMacroOp mode r) = invoked r"
  by (simp add: setupMacroOp_def emit_simps)

lemma end_invoked: "invoked (endMacroOp mode r) = invoked r"
  by (simp add: endMacroOp_def emit_simps)

text \<open>
  C6. For a mode with bit 0x04 set, \<open>REC_COP2_mVU0\<close> invokes the translator once with
  second argument 0 (what the spec calls the upper-slot translation) and then, if and
  only if \<open>lOp.isNOP\<close> is false after that call, once with second argument 1 (the
  lower-slot translation); with \<open>lOp.isNOP\<close> true the second invocation never happens.
\<close>

theorem dual_pass_invocations:
  assumes "mode AND 4 \<noteq> 0"
  shows "invoked (REC_COP2_mVU0 mVU f mode r) =
     invoked r @ (f, 0) #
       (if lOp_isNOP (fst (mVU f 0 (setupMacroOp mode r))) then [] else [(f, 1)])"
  using assms
  by (simp add: REC_COP2_mVU0_def seq_def guarded_def end_invoked setup_invoked call_mVU_def
      split: prod.splits)

theorem dual_pass_invocations_witness:
  "(0x04 :: u32) AND 4 \<noteq> 0 \<and>
   invoked (REC_COP2_mVU0 mVU_nop ''IADD'' 0x04 (rst0 0 0)) = [(''IADD'', 0)] \<and>
   invoked (REC_COP2_mVU0 mVU_op ''IADD'' 0x04 (rst0 0 0)) = [(''IADD'', 0), (''IADD'', 1)]"
proof -
  have a: "(0x04 :: u32) AND 4 \<noteq> 0" by simp
  show ?thesis
    using a dual_pass_invocations [OF a, of mVU_nop "''IADD''" "rst0 0 0"]
      dual_pass_invocations [OF a, of mVU_op "''IADD''" "rst0 0 0"]
    by (simp add: mVU_nop_def mVU_op_def rst0_def setupMacroOp_def emit_simps info_zero_def)
qed

section \<open>The dispatch tables\<close>

lemma table_lengths:
  "length recCOP2t = 32" "length recCOP2_BC2t = 32"
  "length recCOP2SPECIAL1t = 64" "length recCOP2SPECIAL2t = 128"
  by (simp_all add: recCOP2t_def recCOP2_BC2t_def recCOP2SPECIAL1t_def recCOP2SPECIAL2t_def
      mk_table_def)

lemma tables_non_null:
  "None \<notin> set recCOP2t" "None \<notin> set recCOP2_BC2t"
  "None \<notin> set recCOP2SPECIAL1t" "None \<notin> set recCOP2SPECIAL2t"
  by (simp_all add: recCOP2t_def recCOP2_BC2t_def recCOP2SPECIAL1t_def recCOP2SPECIAL2t_def
      mk_table_def)

lemma and_mask_less: "unat (x AND m) \<le> unat (m :: u32)"
  by (simp add: word_and_le1 word_le_nat_alt [symmetric])

lemma index_bounds:
  "Rs r < 32" "Rt r < 32" "Rd r < 32" "Funct r < 64" "SPEC2_index r < 128"
proof -
  show "Rs r < 32" "Rt r < 32" "Rd r < 32" "Funct r < 64"
    using and_mask_less [of "drop_bit 21 (cpuRegs_code r)" "0x1F"]
      and_mask_less [of "drop_bit 16 (cpuRegs_code r)" "0x1F"]
      and_mask_less [of "drop_bit 11 (cpuRegs_code r)" "0x1F"]
      and_mask_less [of "cpuRegs_code r" "0x3F"]
    by (simp_all add: Rs_def Rt_def Rd_def Funct_def)
  have "(cpuRegs_code r AND 3) OR (drop_bit 4 (cpuRegs_code r) AND 0x7c) =
        ((cpuRegs_code r AND 3) OR (drop_bit 4 (cpuRegs_code r) AND 0x7c)) AND 0x7f"
    by (simp add: word_ao_dist word_bw_assocs)
  then show "SPEC2_index r < 128"
    using and_mask_less [of "(cpuRegs_code r AND 3) OR (drop_bit 4 (cpuRegs_code r) AND 0x7c)" "0x7f"]
    by (simp add: SPEC2_index_def)
qed

lemma lookup_ok:
  assumes "i < length t" and "list_all (entry_ok P) t"
  shows "\<exists>h. tbl_lookup t i = Inr h \<and> P h"
proof -
  from assms have "entry_ok P (t ! i)" by (simp add: list_all_length)
  with assms(1) show ?thesis
    by (cases "t ! i") (simp_all add: entry_ok_def tbl_lookup_def)
qed

lemma SPECIAL2_entries: "list_all (entry_ok defined_leaf) recCOP2SPECIAL2t"
  by code_simp

lemma SPECIAL1_entries:
  "list_all (entry_ok (\<lambda>h. defined_leaf h \<or> h = ptr_recCOP2_SPEC2)) recCOP2SPECIAL1t"
  by code_simp

lemma BC2_entries: "list_all (entry_ok defined_leaf) recCOP2_BC2t"
  by code_simp

lemma COP2_entries:
  "list_all (entry_ok (\<lambda>h. defined_leaf h \<or> h = ptr_recCOP2_BC2 \<or> h = ptr_recCOP2_SPEC1))
     recCOP2t"
  by code_simp

lemma call_leaf: "defined_leaf h \<Longrightarrow> \<exists>r'. call mVU (Suc n) h r = Inr r'"
  by (cases h) (auto split: option.splits)

lemma call_SPEC2: "\<exists>r'. call mVU (Suc (Suc n)) ptr_recCOP2_SPEC2 r = Inr r'"
proof -
  obtain h where "tbl_lookup recCOP2SPECIAL2t (SPEC2_index r) = Inr h" "defined_leaf h"
    using lookup_ok [OF _ SPECIAL2_entries, of "SPEC2_index r"] index_bounds(5) [of r]
    by (auto simp: table_lengths)
  then show ?thesis using call_leaf [of h mVU n r] by simp
qed

lemma call_BC2: "\<exists>r'. call mVU (Suc (Suc n)) ptr_recCOP2_BC2 r = Inr r'"
proof -
  obtain h where "tbl_lookup recCOP2_BC2t (Rt r) = Inr h" "defined_leaf h"
    using lookup_ok [OF _ BC2_entries, of "Rt r"] index_bounds(2) [of r]
    by (auto simp: table_lengths)
  then show ?thesis using call_leaf [of h mVU n r] by simp
qed

lemma Funct_prologue: "Funct (recCOP2_SPEC1_prologue r) = Funct r"
  by (simp add: recCOP2_SPEC1_prologue_def Funct_def emit_simps)

lemma call_SPEC1: "\<exists>r'. call mVU (Suc (Suc (Suc n))) ptr_recCOP2_SPEC1 r = Inr r'"
proof -
  obtain h where h: "tbl_lookup recCOP2SPECIAL1t (Funct r) = Inr h"
      "defined_leaf h \<or> h = ptr_recCOP2_SPEC2"
    using lookup_ok [OF _ SPECIAL1_entries, of "Funct r"] index_bounds(4) [of r]
    by (auto simp: table_lengths)
  have "\<exists>r'. call mVU (Suc (Suc n)) h (recCOP2_SPEC1_prologue r) = Inr r'"
    using h(2) call_leaf [of h mVU "Suc n"] call_SPEC2 [of mVU n] by auto
  with h(1) show ?thesis by (simp add: Funct_prologue Let_def)
qed

text \<open>
  C4. The four tables have 32, 32, 64 and 128 slots and none of them is null; the
  indices \<open>_Rs_\<close>, \<open>_Rt_\<close>, \<open>_Funct_\<close> and the SPECIAL2 index computed from the instruction
  word are always below those sizes; so for every instruction word the dispatch through
  \<open>recCOP2\<close> reaches a defined function within three nested calls and returns. The
  fallback \<open>rec_C2UNK\<close> that fills the slots without an instruction emits nothing and
  leaves the recompiler state as it is.
\<close>

theorem dispatch_tables_total:
  "length recCOP2t = 32 \<and> length recCOP2_BC2t = 32 \<and>
   length recCOP2SPECIAL1t = 64 \<and> length recCOP2SPECIAL2t = 128 \<and>
   None \<notin> set recCOP2t \<and> None \<notin> set recCOP2_BC2t \<and>
   None \<notin> set recCOP2SPECIAL1t \<and> None \<notin> set recCOP2SPECIAL2t \<and>
   Rs r < 32 \<and> Rt r < 32 \<and> Funct r < 64 \<and> SPEC2_index r < 128 \<and>
   (\<exists>r'. recCOP2 mVU (Suc (Suc (Suc n))) r = Inr r') \<and>
   call mVU (Suc n) ptr_rec_C2UNK r = Inr r"
proof -
  obtain h where h: "tbl_lookup recCOP2t (Rs r) = Inr h"
      "defined_leaf h \<or> h = ptr_recCOP2_BC2 \<or> h = ptr_recCOP2_SPEC1"
    using lookup_ok [OF _ COP2_entries, of "Rs r"] index_bounds(1) [of r]
    by (auto simp: table_lengths)
  have "\<exists>r'. call mVU (Suc (Suc (Suc n))) h r = Inr r'"
    using h(2) call_leaf [of h mVU "Suc (Suc n)" r] call_BC2 [of mVU "Suc n" r]
      call_SPEC1 [of mVU n r] by auto
  with h(1) have "\<exists>r'. recCOP2 mVU (Suc (Suc (Suc n))) r = Inr r'"
    by (simp add: recCOP2_def)
  then show ?thesis
    by (simp add: table_lengths tables_non_null index_bounds)
qed

theorem dispatch_tables_total_witness:
  "Rs (rst0 0x4A0002FD 0) < 32 \<and> SPEC2_index (rst0 0x4A0002FD 0) < 128 \<and>
   (\<exists>r'. recCOP2 mVU_op 3 (rst0 0x4A0002FD 0) = Inr r')"
  using dispatch_tables_total [of "rst0 0x4A0002FD 0" mVU_op 0]
  by (simp add: numeral_3_eq_3)

section \<open>SPECIAL1: finishing the running microprogram first\<close>

lemma grows_refl: "grows r r"
  by (simp add: grows_def)

lemma grows_trans: "grows r r1 \<Longrightarrow> grows r1 r2 \<Longrightarrow> grows r r2"
  by (auto simp: grows_def)

lemma grows_emit: "grows r (emit i r)"
  by (simp add: grows_def emit_def)

lemma grows_guarded: "(\<And>x. grows x (f x)) \<Longrightarrow> grows r (guarded b f r)"
  by (simp add: guarded_def grows_refl)

lemma grows_seq: "(\<And>f x. f \<in> set fs \<Longrightarrow> grows x (f x)) \<Longrightarrow> grows r (seq fs r)"
proof (induction fs arbitrary: r)
  case Nil
  show ?case by (simp add: seq_def grows_refl)
next
  case (Cons f fs)
  have "grows r (f r)" using Cons.prems by simp
  moreover have "grows (f r) (seq fs (f r))" using Cons.IH Cons.prems by simp
  ultimately show ?case using grows_trans by (simp add: seq_def)
qed

lemma grows_if: "(c \<Longrightarrow> grows r x) \<Longrightarrow> (\<not> c \<Longrightarrow> grows r y) \<Longrightarrow> grows r (if c then x else y)"
  by simp

lemma grows_interlock: "grows r (COP2_Interlock b r)"
  by (simp add: COP2_Interlock_def emit_simps grows_def)

lemma grows_FBRST: "grows r (TEST_FBRST_RESET f i r)"
  by (simp add: TEST_FBRST_RESET_def emit_simps grows_def)

lemma grows_switch: "grows r (recCTC2_switch r)"
  unfolding recCTC2_switch_def
  by (intro grows_if grows_seq grows_guarded grows_refl grows_emit)
     (auto intro!: grows_emit grows_FBRST grows_seq grows_guarded)

lemma grows_xfer: "grows r (rec_xfer op r)"
proof -
  let ?r1 = "\<lambda>b. guarded (cpuRegs_code r AND 1 \<noteq> 0) (COP2_Interlock b) r"
  have 1: "grows r (?r1 b)" for b
    by (rule grows_guarded) (rule grows_interlock)
  have 2: "grows (?r1 False) (recCFC2 r)"
    unfolding recCFC2_def Let_def
    by (intro grows_if grows_seq grows_refl)
       (auto intro!: grows_emit grows_guarded grows_seq)
  have 3: "grows (?r1 True) (recCTC2 r)"
    unfolding recCTC2_def Let_def
    by (intro grows_if grows_seq grows_refl)
       (auto intro!: grows_emit grows_guarded grows_seq grows_switch)
  have 4: "grows (?r1 False) (recQMFC2 r)"
    unfolding recQMFC2_def Let_def
    by (intro grows_if grows_seq grows_refl)
       (auto intro!: grows_emit grows_guarded grows_seq)
  have 5: "grows (?r1 True) (recQMTC2 r)"
    unfolding recQMTC2_def Let_def
    by (intro grows_if grows_seq grows_refl)
       (auto intro!: grows_emit grows_guarded grows_seq)
  show ?thesis
    using grows_trans [OF 1 2] grows_trans [OF 1 3] grows_trans [OF 1 4] grows_trans [OF 1 5]
    by (cases op) simp_all
qed

lemma grows_setup: "grows r (setupMacroOp mode r)"
  by (simp add: setupMacroOp_def emit_simps grows_def)

lemma grows_end: "grows r (endMacroOp mode r)"
  by (simp add: endMacroOp_def emit_simps grows_def)

lemma grows_call_mVU: "grows r (call_mVU mVU f p r)"
  by (simp add: call_mVU_def grows_def split: prod.splits)

lemma grows_mVU0: "grows r (REC_COP2_mVU0 mVU f mode r)"
  unfolding REC_COP2_mVU0_def
  by (intro grows_seq)
     (auto intro!: grows_setup grows_end grows_call_mVU grows_guarded grows_seq)

lemma grows_branch: "grows r (setupBranchTest j l r)"
  unfolding setupBranchTest_def
  by (intro grows_seq) (auto intro!: grows_emit)

lemma grows_interp: "grows r (INTERPRETATE_COP2_FUNC f r)"
  unfolding INTERPRETATE_COP2_FUNC_def
  by (intro grows_seq) (auto intro!: grows_emit)

lemma grows_prologue: "grows r (recCOP2_SPEC1_prologue r)"
  unfolding recCOP2_SPEC1_prologue_def
  by (intro grows_seq) (auto intro!: grows_emit)

lemma call_grows: "call mVU n h r = Inr r' \<Longrightarrow> grows r r'"
proof (induction n arbitrary: h r)
  case 0
  then show ?case by simp
next
  case (Suc n)
  show ?case
  proof (cases h)
    case ptr_recCOP2_BC2
    with Suc.prems obtain h' where "call mVU n h' r = Inr r'"
      by (auto split: sum.splits)
    then show ?thesis by (rule Suc.IH)
  next
    case ptr_recCOP2_SPEC1
    with Suc.prems obtain h' where "call mVU n h' (recCOP2_SPEC1_prologue r) = Inr r'"
      by (auto simp: Let_def split: sum.splits)
    then have "grows (recCOP2_SPEC1_prologue r) r'" by (rule Suc.IH)
    with grows_prologue show ?thesis by (rule grows_trans)
  next
    case ptr_recCOP2_SPEC2
    with Suc.prems obtain h' where "call mVU n h' r = Inr r'"
      by (auto split: sum.splits)
    then show ?thesis by (rule Suc.IH)
  next
    case (ptr_recV f)
    with Suc.prems obtain mode where "r' = REC_COP2_mVU0 mVU f mode r"
      by (auto split: option.splits)
    then show ?thesis by (simp add: grows_mVU0)
  next
    case ptr_recQMFC2
    with Suc.prems show ?thesis using grows_xfer [of r QMFC2] by auto
  next
    case ptr_recCFC2
    with Suc.prems show ?thesis using grows_xfer [of r CFC2] by auto
  next
    case ptr_recQMTC2
    with Suc.prems show ?thesis using grows_xfer [of r QMTC2] by auto
  next
    case ptr_recCTC2
    with Suc.prems show ?thesis using grows_xfer [of r CTC2] by auto
  next
    case ptr_recVCALLMS
    with Suc.prems show ?thesis using grows_interp [of r "''CALLMS''"] by auto
  next
    case ptr_recVCALLMSR
    with Suc.prems show ?thesis using grows_interp [of r "''CALLMSR''"] by auto
  qed (use Suc.prems in \<open>auto simp: recBC2F_def recBC2T_def recBC2FL_def recBC2TL_def
        grows_branch grows_refl\<close>)
qed


lemma out_prologue:
  "out (recCOP2_SPEC1_prologue r) = out r @ emitted recCOP2_SPEC1_prologue r"
  by (simp add: recCOP2_SPEC1_prologue_def emit_simps)

lemma prologue_code:
  "emitted recCOP2_SPEC1_prologue r =
     [Host IFlushCall_FLUSH_EVERYTHING, Op xTEST (M (M_VI REG_VPU_STAT)) (I 1),
      XForwardJ JZ skipvuidle, XFastCall vu0FinishMicro, SetTarget skipvuidle]"
  by (simp add: recCOP2_SPEC1_prologue_def emit_simps)

lemma exec_prologue:
  "exec E None (emitted recCOP2_SPEC1_prologue r) (s, cs) =
     (let s1 = host_sem E IFlushCall_FLUSH_EVERYTHING s
      in if busy s1
         then (None, ext_sem E vu0FinishMicro (s1\<lparr>zf := False, lt := False\<rparr>),
               cs @ [vu0FinishMicro])
         else (None, s1\<lparr>zf := True, lt := False\<rparr>, cs))"
  by (simp add: prologue_code test_busy_flags Let_def)

text \<open>
  C8. A call of \<open>recCOP2_SPEC1\<close> that returns has emitted its prologue and then the code
  of the function in slot \<open>_Funct_\<close> of the SPECIAL1 table, in that order. Run, the
  prologue calls \<open>_vu0FinishMicro\<close> when BusyFlag is set and calls nothing when it is
  clear, and the opcode's code starts from the state the prologue leaves.
\<close>

theorem SPEC1_finishes_vu0_first:
  assumes "call mVU (Suc n) ptr_recCOP2_SPEC1 r = Inr r'"
  shows "\<exists>h body.
     tbl_lookup recCOP2SPECIAL1t (Funct r) = Inr h \<and>
     call mVU n h (recCOP2_SPEC1_prologue r) = Inr r' \<and>
     out r' = out r @ emitted recCOP2_SPEC1_prologue r @ body \<and>
     exec E None (emitted recCOP2_SPEC1_prologue r @ body) (s, cs) =
       (let s1 = host_sem E IFlushCall_FLUSH_EVERYTHING s
        in if busy s1
           then exec E None body
                  (ext_sem E vu0FinishMicro (s1\<lparr>zf := False, lt := False\<rparr>),
                   cs @ [vu0FinishMicro])
           else exec E None body (s1\<lparr>zf := True, lt := False\<rparr>, cs))"
proof -
  from assms obtain h where h: "tbl_lookup recCOP2SPECIAL1t (Funct r) = Inr h"
      "call mVU n h (recCOP2_SPEC1_prologue r) = Inr r'"
    by (auto simp: Let_def Funct_prologue split: sum.splits)
  from call_grows [OF h(2)] obtain body where
    "out r' = out (recCOP2_SPEC1_prologue r) @ body" by (auto simp: grows_def)
  then have o: "out r' = out r @ emitted recCOP2_SPEC1_prologue r @ body"
    by (simp add: out_prologue)
  have "exec E None (emitted recCOP2_SPEC1_prologue r @ body) (s, cs) =
       (let s1 = host_sem E IFlushCall_FLUSH_EVERYTHING s
        in if busy s1
           then exec E None body
                  (ext_sem E vu0FinishMicro (s1\<lparr>zf := False, lt := False\<rparr>),
                   cs @ [vu0FinishMicro])
           else exec E None body (s1\<lparr>zf := True, lt := False\<rparr>, cs))"
    by (simp only: exec_append exec_prologue Let_def) simp
  with h o show ?thesis by blast
qed

lemma SPECIAL1_slot0: "tbl_lookup recCOP2SPECIAL1t 0 = Inr (ptr_recV ''ADDx'')"
  by (simp add: tbl_lookup_def recCOP2SPECIAL1t_def mk_table_def)

lemma ADDx_mode: "map_of rec_cop2_mvu0 ''ADDx'' = Some 0x10"
  by (simp add: rec_cop2_mvu0_def)

theorem SPEC1_finishes_vu0_first_witness:
  "call mVU_op 2 ptr_recCOP2_SPEC1 (rst0 0x4A000000 0) =
     Inr (REC_COP2_mVU0 mVU_op ''ADDx'' 0x10 (recCOP2_SPEC1_prologue (rst0 0x4A000000 0))) \<and>
   (\<exists>body.
     out (REC_COP2_mVU0 mVU_op ''ADDx'' 0x10 (recCOP2_SPEC1_prologue (rst0 0x4A000000 0))) =
       emitted recCOP2_SPEC1_prologue (rst0 0x4A000000 0) @ body \<and>
     exec env_id None (emitted recCOP2_SPEC1_prologue (rst0 0x4A000000 0) @ body) (s_busy, []) =
       exec env_id None body (s_busy\<lparr>zf := False, lt := False\<rparr>, [vu0FinishMicro]))"
proof -
  have f: "Funct (rst0 0x4A000000 0) = 0"
    by (simp add: Funct_def rst0_def)
  have a: "call mVU_op (Suc (Suc 0)) ptr_recCOP2_SPEC1 (rst0 0x4A000000 0) =
     Inr (REC_COP2_mVU0 mVU_op ''ADDx'' 0x10 (recCOP2_SPEC1_prologue (rst0 0x4A000000 0)))"
    by (simp add: Funct_prologue f SPECIAL1_slot0 ADDx_mode Let_def)
  have u: "busy s_busy" by (simp add: s_busy_def hs0_def busy_def)
  have o: "out (rst0 0x4A000000 0) = []" by (simp add: rst0_def)
  from SPEC1_finishes_vu0_first [OF a, of env_id s_busy "[]"]
  show ?thesis
    using a u o by (auto simp: env_id_def numeral_2_eq_2 Let_def)
qed



end
